theory Spec2Isabelle
  imports Complex_Main
begin

section \<open>Shared data of the two map components\<close>

text \<open>
  The repository holds one screen (\<^verbatim>\<open>app/index.tsx\<close>) and two implementations of the
  component \<^verbatim>\<open>Maps\<close>: \<^verbatim>\<open>Maps.web.tsx\<close> (Google Maps JavaScript API) and
  \<^verbatim>\<open>Maps.native.tsx\<close> (react-native-maps). Both take the same props and use the same
  region shape. JavaScript numbers are modelled as real numbers: the rounding of IEEE
  doubles is abstracted away.
\<close>

record region =
  latitude :: real
  longitude :: real
  latitudeDelta :: real
  longitudeDelta :: real

text \<open>A position reading (\<^verbatim>\<open>GeolocationPosition\<close>, \<^verbatim>\<open>Location.LocationObject\<close>): the
  coordinates the components read, and the time stamp that tells two readings apart.\<close>

record geoposition =
  coords_latitude :: real
  coords_longitude :: real
  timestamp :: nat

text \<open>Both props are optional: \<open>None\<close> is an omitted (undefined) prop.\<close>

record props =
  initialRegion :: "region option"
  showUserLocation :: "bool option"

definition defaultRegion :: region where
  "defaultRegion =
     \<lparr>latitude = 37.78825, longitude = -122.4324,
      latitudeDelta = 0.0922, longitudeDelta = 0.0421\<rparr>"

text \<open>The destructuring default \<^verbatim>\<open>showUserLocation = true\<close> of both components.\<close>

definition show_location :: "props \<Rightarrow> bool" where
  "show_location p = (case showUserLocation p of None \<Rightarrow> True | Some b \<Rightarrow> b)"

text \<open>JavaScript truthiness of \<^verbatim>\<open>errorMsg: string | null\<close>: null and the empty string
  are falsy.\<close>

definition truthy :: "string option \<Rightarrow> bool" where
  "truthy m = (case m of None \<Rightarrow> False | Some t \<Rightarrow> t \<noteq> [])"

text \<open>\<^verbatim>\<open>Math.log2(360 / mapRegion.latitudeDelta) - 2.5\<close> of the web map initialisation.\<close>

definition zoom :: "real \<Rightarrow> real" where
  "zoom latDelta = log 2 (360 / latDelta) - 2.5"


section \<open>The web component (\<^verbatim>\<open>Maps.web.tsx\<close>)\<close>

subsection \<open>The page, the provider's objects and the component state\<close>

text \<open>
  What the component reads and writes outside itself, shared by every component on the
  page: \<^verbatim>\<open>navigator.geolocation\<close> (\<open>None\<close> when \<^verbatim>\<open>navigator\<close> is undefined, else
  whether \<^verbatim>\<open>navigator.geolocation\<close> is there), \<^verbatim>\<open>window.google?.maps\<close>, and the
  provider script elements that are children of \<^verbatim>\<open>document.head\<close>. A script element is
  named by the number \<^verbatim>\<open>document.createElement\<close> gave it.
\<close>

record page =
  navigator_geolocation :: "bool option"
  google_maps :: bool
  head :: "nat list"
  nodes_created :: nat

text \<open>Objects made by \<^verbatim>\<open>new google.maps.Map\<close> and \<^verbatim>\<open>new google.maps.Marker\<close>. They
  live in two stores owned by the component; a handle is an index into its store. A
  marker's \<open>marker_map\<close> is the map it is attached to, \<open>None\<close> after
  \<^verbatim>\<open>setMap(null)\<close>.\<close>

record gmap =
  map_center :: "real \<times> real"
  map_zoom :: real

record gmarker =
  marker_position :: "real \<times> real"
  marker_map :: "nat option"

datatype element = MapDiv | ErrorText string

text \<open>
  The hooks of the component in the order of the source: three \<^verbatim>\<open>useState\<close> cells,
  three \<^verbatim>\<open>useRef\<close> cells (\<open>mapRef\<close> holds whether the container div is attached), and for
  each \<^verbatim>\<open>useEffect\<close> the dependency values of its last run (\<open>None\<close> or \<open>False\<close> before
  the first run). \<open>script\<close> is the element the script effect closed over,
  \<open>script_pending\<close> whether its load or error event is still to come, \<open>geo_pending\<close> the
  number of \<^verbatim>\<open>getCurrentPosition\<close> calls whose callback is still to come. \<open>geo_requests\<close>
  and \<open>scripts_injected\<close> count the calls of \<^verbatim>\<open>getCurrentPosition\<close> and of
  \<^verbatim>\<open>document.head.appendChild\<close>; \<open>rendered\<close> is the committed output below the outer
  \<^verbatim>\<open>View\<close>.
\<close>

record web_state =
  cur_props :: props
  position :: "geoposition option"
  errorMsg :: "string option"
  mapLoaded :: bool
  mapRef :: bool
  googleMapRef :: "nat option"
  userMarkerRef :: "nat option"
  deps_location :: "bool option"
  deps_script :: bool
  deps_init :: "(bool \<times> real \<times> real \<times> real) option"
  deps_marker :: "(geoposition option \<times> bool \<times> bool) option"
  script :: "nat option"
  script_pending :: bool
  geo_pending :: nat
  geo_requests :: nat
  scripts_injected :: nat
  gmaps :: "gmap list"
  markers :: "gmarker list"
  rendered :: "element list"
  mounted :: bool
  pg :: page

subsection \<open>Render\<close>

text \<open>\<^verbatim>\<open>const mapRegion = position ? {...} : (initialRegion || defaultRegion)\<close>. A region
  object is always truthy.\<close>

definition mapRegion :: "web_state \<Rightarrow> region" where
  "mapRegion s =
     (case position s of
        Some pos \<Rightarrow>
          \<lparr>latitude = coords_latitude pos, longitude = coords_longitude pos,
           latitudeDelta = 0.0922, longitudeDelta = 0.0421\<rparr>
      | None \<Rightarrow>
          (case initialRegion (cur_props s) of
             Some r \<Rightarrow> r
           | None \<Rightarrow> defaultRegion))"

text \<open>\<^verbatim>\<open>{errorMsg ? <Text>{errorMsg}</Text> : <div ref={mapRef} />}\<close>\<close>

definition view :: "string option \<Rightarrow> element list" where
  "view m = (if truthy m then [ErrorText (the m)] else [MapDiv])"

text \<open>Committing the output attaches the div to \<open>mapRef\<close>, or clears the ref when the div
  is not rendered.\<close>

definition render :: "web_state \<Rightarrow> web_state" where
  "render s = s\<lparr>rendered := view (errorMsg s), mapRef := \<not> truthy (errorMsg s)\<rparr>"

subsection \<open>The four effects\<close>

text \<open>
  An effect sees the props and the state of the render it belongs to (the first argument,
  the closure) and acts on the current refs, stores and page (the second argument). A
  \<^verbatim>\<open>setState\<close> call changes the state of the next render. An effect runs when its
  dependency values differ from those of its last run. Left out of the model, since no
  state depends on them: the options of the map and of the marker other than center, zoom
  and position, the info window and its click listener, and all styles.
\<close>

definition location_effect :: "web_state \<Rightarrow> web_state \<Rightarrow> web_state" where
  "location_effect r s =
     (let shw = show_location (cur_props r) in
      if deps_location s = Some shw then s
      else
        (let s1 = s\<lparr>deps_location := Some shw\<rparr> in
         if shw \<and> navigator_geolocation (pg s1) = Some True then
           s1\<lparr>geo_requests := geo_requests s1 + 1, geo_pending := geo_pending s1 + 1\<rparr>
         else if shw \<and> navigator_geolocation (pg s1) = Some False then
           s1\<lparr>errorMsg := Some ''Geolocation is not supported by this browser''\<rparr>
         else s1))"

definition script_effect :: "web_state \<Rightarrow> web_state \<Rightarrow> web_state" where
  "script_effect r s =
     (if deps_script s then s
      else
        (let s1 = s\<lparr>deps_script := True\<rparr> in
         if google_maps (pg s1) then s1\<lparr>mapLoaded := True\<rparr>
         else
           (let n = nodes_created (pg s1) in
            s1\<lparr>script := Some n, script_pending := True,
               scripts_injected := scripts_injected s1 + 1,
               pg := (pg s1)\<lparr>nodes_created := n + 1, head := head (pg s1) @ [n]\<rparr>\<rparr>)))"

text \<open>\<^verbatim>\<open>[mapLoaded, mapRegion.latitude, mapRegion.longitude, mapRegion.latitudeDelta]\<close>\<close>

definition init_deps :: "web_state \<Rightarrow> bool \<times> real \<times> real \<times> real" where
  "init_deps r =
     (mapLoaded r, latitude (mapRegion r), longitude (mapRegion r),
      latitudeDelta (mapRegion r))"

definition init_effect :: "web_state \<Rightarrow> web_state \<Rightarrow> web_state" where
  "init_effect r s =
     (if deps_init s = Some (init_deps r) then s
      else
        (let s1 = s\<lparr>deps_init := Some (init_deps r)\<rparr> in
         if \<not> mapLoaded r \<or> \<not> mapRef s1 \<or> \<not> google_maps (pg s1) then s1
         else
           s1\<lparr>gmaps := gmaps s1 @
                 [\<lparr>map_center = (latitude (mapRegion r), longitude (mapRegion r)),
                   map_zoom = zoom (latitudeDelta (mapRegion r))\<rparr>],
              googleMapRef := Some (length (gmaps s1))\<rparr>))"

text \<open>\<^verbatim>\<open>[position, showUserLocation, mapLoaded]\<close>\<close>

definition marker_deps :: "web_state \<Rightarrow> geoposition option \<times> bool \<times> bool" where
  "marker_deps r = (position r, show_location (cur_props r), mapLoaded r)"

definition marker_effect :: "web_state \<Rightarrow> web_state \<Rightarrow> web_state" where
  "marker_effect r s =
     (if deps_marker s = Some (marker_deps r) then s
      else
        (let s1 = s\<lparr>deps_marker := Some (marker_deps r)\<rparr> in
         if googleMapRef s1 = None \<or> position r = None \<or> \<not> show_location (cur_props r)
            \<or> \<not> google_maps (pg s1)
         then
           (case userMarkerRef s1 of
              Some h \<Rightarrow>
                if \<not> show_location (cur_props r) then
                  s1\<lparr>markers := (markers s1)[h := (markers s1 ! h)\<lparr>marker_map := None\<rparr>],
                     userMarkerRef := None\<rparr>
                else s1
            | None \<Rightarrow> s1)
         else
           (let userPos = (coords_latitude (the (position r)),
                           coords_longitude (the (position r))) in
            case userMarkerRef s1 of
              None \<Rightarrow>
                s1\<lparr>markers := markers s1 @
                      [\<lparr>marker_position = userPos, marker_map = googleMapRef s1\<rparr>],
                   userMarkerRef := Some (length (markers s1))\<rparr>
            | Some h \<Rightarrow>
                s1\<lparr>markers :=
                      (markers s1)[h := (markers s1 ! h)\<lparr>marker_position := userPos\<rparr>]\<rparr>)))"

subsection \<open>Render passes\<close>

text \<open>One pass: render, commit, then the effects in the order of the source, all with the
  state of this render as their closure.\<close>

definition commit_pass :: "web_state \<Rightarrow> web_state" where
  "commit_pass s =
     marker_effect s (init_effect s (script_effect s (location_effect s (render s))))"

definition hooks :: "web_state \<Rightarrow> geoposition option \<times> string option \<times> bool" where
  "hooks s = (position s, errorMsg s, mapLoaded s)"

text \<open>A \<^verbatim>\<open>setState\<close> inside an effect schedules another render. Only the location effect
  and the script effect set state, and neither runs in the second pass, so two passes
  reach the fixed point (lemma \<open>rerender_stable\<close>).\<close>

definition rerender :: "web_state \<Rightarrow> web_state" where
  "rerender s =
     (let s1 = commit_pass s in
      if hooks s1 = hooks s then s1 else commit_pass s1)"

subsection \<open>Mount, events, runs\<close>

definition init_state :: "page \<Rightarrow> props \<Rightarrow> web_state" where
  "init_state g p =
     \<lparr>cur_props = p, position = None, errorMsg = None, mapLoaded = False,
      mapRef = False, googleMapRef = None, userMarkerRef = None,
      deps_location = None, deps_script = False, deps_init = None, deps_marker = None,
      script = None, script_pending = False, geo_pending = 0, geo_requests = 0,
      scripts_injected = 0, gmaps = [], markers = [], rendered = [], mounted = True,
      pg = g\<rparr>"

definition Maps_web :: "page \<Rightarrow> props \<Rightarrow> web_state" where
  "Maps_web g p = rerender (init_state g p)"

text \<open>
  What can happen to a mounted component: a callback of a pending
  \<^verbatim>\<open>getCurrentPosition\<close> call (each call answers once, with a reading or with an error),
  the load or error event of the pending script (the loaded script defines
  \<^verbatim>\<open>window.google.maps\<close>), new props from the parent, and the unmount, which runs the
  cleanup of the script effect: \<^verbatim>\<open>removeChild\<close> when the head contains the element (a node
  occurs once among the children of its parent, so removing it leaves none). After the
  unmount a \<^verbatim>\<open>setState\<close> has no effect and nothing is rendered.
\<close>

datatype web_event =
  GeoSuccess geoposition
| GeoError string
| ScriptLoad
| ScriptError
| SetProps props
| Unmount

fun web_step :: "web_event \<Rightarrow> web_state \<Rightarrow> web_state" where
  "web_step (GeoSuccess pos) s =
     (if geo_pending s = 0 then s
      else
        (let s1 = s\<lparr>geo_pending := geo_pending s - 1\<rparr> in
         if mounted s1 then rerender (s1\<lparr>position := Some pos\<rparr>) else s1))"
| "web_step (GeoError m) s =
     (if geo_pending s = 0 then s
      else
        (let s1 = s\<lparr>geo_pending := geo_pending s - 1\<rparr> in
         if mounted s1 then rerender (s1\<lparr>errorMsg := Some (''Error getting location: '' @ m)\<rparr>)
         else s1))"
| "web_step ScriptLoad s =
     (if \<not> script_pending s then s
      else
        (let s1 = s\<lparr>script_pending := False, pg := (pg s)\<lparr>google_maps := True\<rparr>\<rparr> in
         if mounted s1 then rerender (s1\<lparr>mapLoaded := True\<rparr>) else s1))"
| "web_step ScriptError s =
     (if \<not> script_pending s then s
      else
        (let s1 = s\<lparr>script_pending := False\<rparr> in
         if mounted s1 then rerender (s1\<lparr>errorMsg := Some ''Failed to load Google Maps''\<rparr>)
         else s1))"
| "web_step (SetProps q) s =
     (if mounted s then rerender (s\<lparr>cur_props := q\<rparr>) else s)"
| "web_step Unmount s =
     (if \<not> mounted s then s
      else
        (let s1 = (case script s of
                     Some n \<Rightarrow>
                       if n \<in> set (head (pg s))
                       then s\<lparr>pg := (pg s)\<lparr>head := removeAll n (head (pg s))\<rparr>\<rparr>
                       else s
                   | None \<Rightarrow> s)
         in s1\<lparr>mounted := False, rendered := [], mapRef := False\<rparr>))"

fun web_run :: "web_state \<Rightarrow> web_event list \<Rightarrow> web_state" where
  "web_run s [] = s"
| "web_run s (e # es) = web_run (web_step e s) es"


section \<open>The native component (\<^verbatim>\<open>Maps.native.tsx\<close>)\<close>

text \<open>The output below the outer \<^verbatim>\<open>View\<close>: the error text, or the \<^verbatim>\<open>MapView\<close> with its
  \<^verbatim>\<open>region\<close> and \<^verbatim>\<open>showsUserLocation\<close> props and the coordinates of its \<^verbatim>\<open>Marker\<close>
  children.\<close>

datatype native_element =
  NativeErrorText string
| MapView region bool "(real \<times> real) list"

text \<open>
  Three \<^verbatim>\<open>useState\<close> cells and the dependency of the one effect. The effect is an
  asynchronous function: \<open>perm_pending\<close> counts its runs waiting for
  \<^verbatim>\<open>requestForegroundPermissionsAsync\<close>, \<open>loc_pending\<close> those waiting for
  \<^verbatim>\<open>getCurrentPositionAsync\<close>; \<open>perm_requests\<close> and \<open>loc_requests\<close> count the calls.
\<close>

record native_state =
  n_props :: props
  n_region :: region
  n_location :: "geoposition option"
  n_errorMsg :: "string option"
  n_deps_location :: "bool option"
  perm_pending :: nat
  loc_pending :: nat
  perm_requests :: nat
  loc_requests :: nat
  n_rendered :: "native_element list"
  n_mounted :: bool

definition native_view :: "native_state \<Rightarrow> native_element list" where
  "native_view s =
     (if truthy (n_errorMsg s) then [NativeErrorText (the (n_errorMsg s))]
      else
        [MapView (n_region s) (show_location (n_props s))
           (case n_location s of
              Some l \<Rightarrow> [(coords_latitude l, coords_longitude l)]
            | None \<Rightarrow> [])])"

text \<open>The synchronous part of the effect: up to the first \<^verbatim>\<open>await\<close>. The accuracy
  option chosen by \<^verbatim>\<open>Platform.OS\<close> and the other props of the \<^verbatim>\<open>MapView\<close> are left out.\<close>

definition native_location_effect :: "native_state \<Rightarrow> native_state \<Rightarrow> native_state" where
  "native_location_effect r s =
     (let shw = show_location (n_props r) in
      if n_deps_location s = Some shw then s
      else
        (let s1 = s\<lparr>n_deps_location := Some shw\<rparr> in
         if shw then
           s1\<lparr>perm_requests := perm_requests s1 + 1, perm_pending := perm_pending s1 + 1\<rparr>
         else s1))"

definition native_pass :: "native_state \<Rightarrow> native_state" where
  "native_pass s = native_location_effect s (s\<lparr>n_rendered := native_view s\<rparr>)"

text \<open>\<^verbatim>\<open>useState<Region>(initialRegion || defaultRegion)\<close>\<close>

definition native_init :: "props \<Rightarrow> native_state" where
  "native_init p =
     \<lparr>n_props = p,
      n_region = (case initialRegion p of Some r \<Rightarrow> r | None \<Rightarrow> defaultRegion),
      n_location = None, n_errorMsg = None, n_deps_location = None,
      perm_pending = 0, loc_pending = 0, perm_requests = 0, loc_requests = 0,
      n_rendered = [], n_mounted = True\<rparr>"

definition Maps_native :: "props \<Rightarrow> native_state" where
  "Maps_native p = native_pass (native_init p)"

text \<open>
  The events: the answer to a pending permission request (granted or not), the result or
  the exception of a pending position query, \<^verbatim>\<open>onRegionChangeComplete\<close> of the rendered
  \<^verbatim>\<open>MapView\<close>, new props, the unmount. The asynchronous function goes on after the
  unmount; only its \<^verbatim>\<open>setState\<close> calls are then without effect.
\<close>

datatype native_event =
  PermissionResult bool
| LocationResult geoposition
| LocationFailure
| RegionChangeComplete region
| NativeSetProps props
| NativeUnmount

fun native_step :: "native_event \<Rightarrow> native_state \<Rightarrow> native_state" where
  "native_step (PermissionResult granted) s =
     (if perm_pending s = 0 then s
      else
        (let s1 = s\<lparr>perm_pending := perm_pending s - 1\<rparr> in
         if \<not> granted then
           (if n_mounted s1
            then native_pass (s1\<lparr>n_errorMsg := Some ''Permission to access location was denied''\<rparr>)
            else s1)
         else s1\<lparr>loc_requests := loc_requests s1 + 1, loc_pending := loc_pending s1 + 1\<rparr>))"
| "native_step (LocationResult l) s =
     (if loc_pending s = 0 then s
      else
        (let s1 = s\<lparr>loc_pending := loc_pending s - 1\<rparr> in
         if n_mounted s1 then
           native_pass
             (s1\<lparr>n_location := Some l,
                 n_region :=
                   \<lparr>latitude = coords_latitude l, longitude = coords_longitude l,
                    latitudeDelta = 0.0922, longitudeDelta = 0.0421\<rparr>\<rparr>)
         else s1))"
| "native_step LocationFailure s =
     (if loc_pending s = 0 then s
      else
        (let s1 = s\<lparr>loc_pending := loc_pending s - 1\<rparr> in
         if n_mounted s1
         then native_pass
                (s1\<lparr>n_errorMsg := Some ''Error getting current location on native device''\<rparr>)
         else s1))"
| "native_step (RegionChangeComplete newRegion) s =
     (if n_mounted s \<and> \<not> truthy (n_errorMsg s)
      then native_pass (s\<lparr>n_region := newRegion\<rparr>)
      else s)"
| "native_step (NativeSetProps q) s =
     (if n_mounted s then native_pass (s\<lparr>n_props := q\<rparr>) else s)"
| "native_step NativeUnmount s = s\<lparr>n_mounted := False, n_rendered := []\<rparr>"

fun native_run :: "native_state \<Rightarrow> native_event list \<Rightarrow> native_state" where
  "native_run s [] = s"
| "native_run s (e # es) = native_run (native_step e s) es"


section \<open>The screen (\<^verbatim>\<open>app/index.tsx\<close>)\<close>

text \<open>\<^verbatim>\<open>PlatformMap\<close> declares the two props and renders \<^verbatim>\<open><Maps />\<close>: the element it
  creates carries no props, whatever \<^verbatim>\<open>PlatformMap\<close> was given.\<close>

definition PlatformMap_child_props :: "props \<Rightarrow> props" where
  "PlatformMap_child_props pp = \<lparr>initialRegion = None, showUserLocation = None\<rparr>"

definition PlatformMap_web :: "page \<Rightarrow> props \<Rightarrow> web_state" where
  "PlatformMap_web g pp = Maps_web g (PlatformMap_child_props pp)"

definition PlatformMap_native :: "props \<Rightarrow> native_state" where
  "PlatformMap_native pp = Maps_native (PlatformMap_child_props pp)"

text \<open>At the level of the screen a props event carries the props given to
  \<^verbatim>\<open>PlatformMap\<close>; its re-render hands \<^verbatim>\<open>Maps\<close> the props of the element it creates.\<close>

fun PlatformMap_web_step :: "web_event \<Rightarrow> web_state \<Rightarrow> web_state" where
  "PlatformMap_web_step (SetProps pp) s = web_step (SetProps (PlatformMap_child_props pp)) s"
| "PlatformMap_web_step e s = web_step e s"

fun PlatformMap_web_run :: "web_state \<Rightarrow> web_event list \<Rightarrow> web_state" where
  "PlatformMap_web_run s [] = s"
| "PlatformMap_web_run s (e # es) = PlatformMap_web_run (PlatformMap_web_step e s) es"

fun PlatformMap_native_step :: "native_event \<Rightarrow> native_state \<Rightarrow> native_state" where
  "PlatformMap_native_step (NativeSetProps pp) s =
     native_step (NativeSetProps (PlatformMap_child_props pp)) s"
| "PlatformMap_native_step e s = native_step e s"

fun PlatformMap_native_run :: "native_state \<Rightarrow> native_event list \<Rightarrow> native_state" where
  "PlatformMap_native_run s [] = s"
| "PlatformMap_native_run s (e # es) =
     PlatformMap_native_run (PlatformMap_native_step e s) es"

text \<open>\<^verbatim>\<open>HomeScreen\<close> renders \<^verbatim>\<open><PlatformMap />\<close>, again without props.\<close>

definition HomeScreen_web :: "page \<Rightarrow> web_state" where
  "HomeScreen_web g = PlatformMap_web g \<lparr>initialRegion = None, showUserLocation = None\<rparr>"

definition HomeScreen_native :: native_state where
  "HomeScreen_native = PlatformMap_native \<lparr>initialRegion = None, showUserLocation = None\<rparr>"


section \<open>Predicates and inputs used to state the properties\<close>

text \<open>A state is settled when a further render pass would find the committed output and
  every dependency list up to date.\<close>

definition settled :: "web_state \<Rightarrow> bool" where
  "settled s \<longleftrightarrow>
     rendered s = view (errorMsg s) \<and> mapRef s = (\<not> truthy (errorMsg s))
     \<and> deps_location s = Some (show_location (cur_props s)) \<and> deps_script s
     \<and> deps_init s = Some (init_deps s) \<and> deps_marker s = Some (marker_deps s)"

definition synced :: "web_state \<Rightarrow> bool" where
  "synced s \<longleftrightarrow>
     errorMsg s \<noteq> Some [] \<and> (if mounted s then settled s else rendered s = [])"

definition native_synced :: "native_state \<Rightarrow> bool" where
  "native_synced s \<longleftrightarrow>
     n_errorMsg s \<noteq> Some []
     \<and> (if n_mounted s
        then n_rendered s = native_view s
             \<and> n_deps_location s = Some (show_location (n_props s))
        else n_rendered s = [])"

text \<open>The provider is there whenever the component believes the script loaded.\<close>

definition loaded_inv :: "web_state \<Rightarrow> bool" where
  "loaded_inv s \<longleftrightarrow> (mapLoaded s \<longrightarrow> google_maps (pg s))"

text \<open>A map object constructed from a region: its center and its zoom.\<close>

definition centered :: "region \<Rightarrow> gmap \<Rightarrow> bool" where
  "centered r m \<longleftrightarrow>
     map_center m = (latitude r, longitude r) \<and> map_zoom m = zoom (latitudeDelta r)"

text \<open>Concrete inputs: a page with geolocation where the provider is not loaded, the
  same page with the provider loaded, the props of \<^verbatim>\<open><Maps />\<close>, of
  \<^verbatim>\<open><Maps showUserLocation={false} />\<close> and of a \<^verbatim>\<open>Maps\<close> with an \<^verbatim>\<open>initialRegion\<close>, and
  three readings, the last at the coordinates of the default region.\<close>

definition fresh_page :: page where
  "fresh_page =
     \<lparr>navigator_geolocation = Some True, google_maps = False, head = [], nodes_created = 0\<rparr>"

definition loaded_page :: page where
  "loaded_page =
     \<lparr>navigator_geolocation = Some True, google_maps = True, head = [], nodes_created = 0\<rparr>"

definition no_props :: props where
  "no_props = \<lparr>initialRegion = None, showUserLocation = None\<rparr>"

definition hidden_props :: props where
  "hidden_props = \<lparr>initialRegion = None, showUserLocation = Some False\<rparr>"

definition reading_a :: geoposition where
  "reading_a = \<lparr>coords_latitude = 10, coords_longitude = 20, timestamp = 1\<rparr>"

definition reading_b :: geoposition where
  "reading_b = \<lparr>coords_latitude = 11, coords_longitude = 21, timestamp = 2\<rparr>"

definition reading_home :: geoposition where
  "reading_home =
     \<lparr>coords_latitude = 37.78825, coords_longitude = -122.4324, timestamp = 3\<rparr>"

definition custom_props :: props where
  "custom_props =
     \<lparr>initialRegion =
        Some \<lparr>latitude = 48, longitude = 2, latitudeDelta = 1, longitudeDelta = 1\<rparr>,
      showUserLocation = None\<rparr>"

text \<open>Invariants of the script effect: it appends at most one element, and only in its
  one run; when the provider was there at mount, nothing is appended; the appended element
  stays in the head exactly as long as the component is mounted.\<close>

definition injected_inv :: "web_state \<Rightarrow> bool" where
  "injected_inv s \<longleftrightarrow> scripts_injected s \<le> (if deps_script s then 1 else 0)"

definition skipped_inv :: "nat list \<Rightarrow> web_state \<Rightarrow> bool" where
  "skipped_inv H s \<longleftrightarrow>
     (deps_script s \<or> google_maps (pg s)) \<and> scripts_injected s = 0 \<and> script s = None
     \<and> head (pg s) = H"

definition script_inv :: "nat \<Rightarrow> web_state \<Rightarrow> bool" where
  "script_inv n s \<longleftrightarrow>
     deps_script s \<and> script s = Some n
     \<and> (if mounted s then n \<in> set (head (pg s)) else n \<notin> set (head (pg s)))"

text \<open>An event that leaves \<^verbatim>\<open>showUserLocation\<close> false: any event but new props that show
  the location.\<close>

fun props_hidden :: "web_event \<Rightarrow> bool" where
  "props_hidden (SetProps q) = (\<not> show_location q)"
| "props_hidden e = True"

fun native_props_hidden :: "native_event \<Rightarrow> bool" where
  "native_props_hidden (NativeSetProps q) = (\<not> show_location q)"
| "native_props_hidden e = True"

text \<open>What holds of a component that has never been asked to show the location.\<close>

definition hidden_inv :: "web_state \<Rightarrow> bool" where
  "hidden_inv s \<longleftrightarrow>
     \<not> show_location (cur_props s) \<and> geo_requests s = 0 \<and> geo_pending s = 0
     \<and> position s = None \<and> markers s = [] \<and> userMarkerRef s = None
     \<and> (errorMsg s = None \<or> errorMsg s = Some ''Failed to load Google Maps'')"

definition native_hidden_inv :: "native_state \<Rightarrow> bool" where
  "native_hidden_inv s \<longleftrightarrow>
     \<not> show_location (n_props s) \<and> perm_requests s = 0 \<and> perm_pending s = 0
     \<and> loc_requests s = 0 \<and> loc_pending s = 0 \<and> n_location s = None \<and> n_errorMsg s = None"

text \<open>Events that carry new props.\<close>

fun is_props_event :: "web_event \<Rightarrow> bool" where
  "is_props_event (SetProps q) = True"
| "is_props_event e = False"

fun is_native_props_event :: "native_event \<Rightarrow> bool" where
  "is_native_props_event (NativeSetProps q) = True"
| "is_native_props_event e = False"

text \<open>The markers that are on a map, and the markers that are on the map object the
  component holds now.\<close>

definition live_markers :: "web_state \<Rightarrow> gmarker list" where
  "live_markers s = filter (\<lambda>m. marker_map m \<noteq> None) (markers s)"

definition markers_on_current_map :: "web_state \<Rightarrow> gmarker list" where
  "markers_on_current_map s =
     filter (\<lambda>m. marker_map m \<noteq> None \<and> marker_map m = googleMapRef s) (markers s)"

text \<open>Every marker on a map is the one \<open>userMarkerRef\<close> holds, and \<open>userMarkerRef\<close> holds
  a marker that is on a map.\<close>

definition marker_inv :: "web_state \<Rightarrow> bool" where
  "marker_inv s \<longleftrightarrow>
     (\<forall>i < length (markers s). marker_map (markers s ! i) \<noteq> None \<longrightarrow> userMarkerRef s = Some i)
     \<and> (\<forall>h. userMarkerRef s = Some h \<longrightarrow>
            h < length (markers s) \<and> marker_map (markers s ! h) \<noteq> None)"


section \<open>Properties\<close>

subsection \<open>The zoom level\<close>

lemma pow_lower: "(2::real) ^ 1193 < (1800000 / 461) ^ 100"
  by (simp add: power_divide)

lemma pow_upper: "(1800000 / 461 :: real) ^ 100 < 2 ^ 1194"
  by (simp add: power_divide)

lemma two_powr_hundredth: "((2::real) powr (real n / 100)) ^ 100 = 2 ^ n"
proof -
  have "((2::real) powr (real n / 100)) ^ 100 = 2 powr (real n / 100 * real 100)"
    by (simp only: powr_powr powr_realpow [symmetric] zero_less_numeral powr_gt_zero)
  also have "\<dots> = 2 powr (real n)" by simp
  also have "\<dots> = 2 ^ n" by (rule powr_realpow) simp
  finally show ?thesis .
qed

lemma log2_lower: "1193 / 100 < log 2 (1800000 / 461 :: real)"
proof -
  have "((2::real) powr (real 1193 / 100)) ^ 100 < (1800000 / 461) ^ 100"
    unfolding two_powr_hundredth by (rule pow_lower)
  then have "(2::real) powr (real 1193 / 100) < 1800000 / 461"
    by (rule power_less_imp_less_base) simp
  then have "real 1193 / 100 < log 2 (1800000 / 461 :: real)"
    by (subst less_log_iff) simp_all
  then show ?thesis by simp
qed

lemma log2_upper: "log 2 (1800000 / 461 :: real) < 1194 / 100"
proof -
  have "(1800000 / 461) ^ 100 < ((2::real) powr (real 1194 / 100)) ^ 100"
    unfolding two_powr_hundredth by (rule pow_upper)
  then have "1800000 / 461 < (2::real) powr (real 1194 / 100)"
    by (rule power_less_imp_less_base) simp
  then have "log 2 (1800000 / 461 :: real) < real 1194 / 100"
    by (subst log_less_iff) simp_all
  then show ?thesis by simp
qed

lemma zoom_default_bounds: "943 / 100 < zoom 0.0922 \<and> zoom 0.0922 < 944 / 100"
proof -
  have "(360 / 0.0922 :: real) = 1800000 / 461" by simp
  then have "zoom 0.0922 = log 2 (1800000 / 461) - 5 / 2"
    by (simp add: zoom_def)
  then show ?thesis using log2_lower log2_upper by simp
qed


text \<open>
  Claim C3, as the code has it: the zoom handed to the map constructor is the function
  \<open>log\<^sub>2 (360 / latitudeDelta) - 2.5\<close> of the latitude delta alone, and at the latitude
  delta 0.0922 its value lies between 9.43 and 9.44.
\<close>

theorem zoom_log2_formula:
  "zoom latDelta = log 2 (360 / latDelta) - 5 / 2
   \<and> 943 / 100 < zoom (922 / 10000) \<and> zoom (922 / 10000) < 944 / 100"
  using zoom_default_bounds by (simp add: zoom_def)

text \<open>Claim C3 as stated gives the value at 0.0922 as about 9.47: the value is further
  than 0.03 from 9.47.\<close>

theorem zoom_not_9_47: "\<not> \<bar>zoom (922 / 10000) - 947 / 100\<bar> < 3 / 100"
  using zoom_default_bounds by simp

subsection \<open>Render passes reach a fixed point\<close>

lemma location_effect_frame:
  "cur_props (location_effect r s) = cur_props s"
  "position (location_effect r s) = position s"
  "mapLoaded (location_effect r s) = mapLoaded s"
  "mapRef (location_effect r s) = mapRef s"
  "googleMapRef (location_effect r s) = googleMapRef s"
  "userMarkerRef (location_effect r s) = userMarkerRef s"
  "deps_script (location_effect r s) = deps_script s"
  "deps_init (location_effect r s) = deps_init s"
  "deps_marker (location_effect r s) = deps_marker s"
  "script (location_effect r s) = script s"
  "script_pending (location_effect r s) = script_pending s"
  "scripts_injected (location_effect r s) = scripts_injected s"
  "gmaps (location_effect r s) = gmaps s"
  "markers (location_effect r s) = markers s"
  "rendered (location_effect r s) = rendered s"
  "mounted (location_effect r s) = mounted s"
  "pg (location_effect r s) = pg s"
  "deps_location (location_effect r s) = Some (show_location (cur_props r))"
  by (simp_all add: location_effect_def Let_def)

lemma script_effect_frame:
  "cur_props (script_effect r s) = cur_props s"
  "position (script_effect r s) = position s"
  "errorMsg (script_effect r s) = errorMsg s"
  "mapRef (script_effect r s) = mapRef s"
  "googleMapRef (script_effect r s) = googleMapRef s"
  "userMarkerRef (script_effect r s) = userMarkerRef s"
  "deps_location (script_effect r s) = deps_location s"
  "deps_init (script_effect r s) = deps_init s"
  "deps_marker (script_effect r s) = deps_marker s"
  "geo_pending (script_effect r s) = geo_pending s"
  "geo_requests (script_effect r s) = geo_requests s"
  "gmaps (script_effect r s) = gmaps s"
  "markers (script_effect r s) = markers s"
  "rendered (script_effect r s) = rendered s"
  "mounted (script_effect r s) = mounted s"
  "deps_script (script_effect r s) = True"
  "navigator_geolocation (pg (script_effect r s)) = navigator_geolocation (pg s)"
  "google_maps (pg (script_effect r s)) = google_maps (pg s)"
  by (simp_all add: script_effect_def Let_def)

lemma init_effect_frame:
  "cur_props (init_effect r s) = cur_props s"
  "position (init_effect r s) = position s"
  "errorMsg (init_effect r s) = errorMsg s"
  "mapLoaded (init_effect r s) = mapLoaded s"
  "mapRef (init_effect r s) = mapRef s"
  "userMarkerRef (init_effect r s) = userMarkerRef s"
  "deps_location (init_effect r s) = deps_location s"
  "deps_script (init_effect r s) = deps_script s"
  "deps_marker (init_effect r s) = deps_marker s"
  "script (init_effect r s) = script s"
  "script_pending (init_effect r s) = script_pending s"
  "geo_pending (init_effect r s) = geo_pending s"
  "geo_requests (init_effect r s) = geo_requests s"
  "scripts_injected (init_effect r s) = scripts_injected s"
  "markers (init_effect r s) = markers s"
  "rendered (init_effect r s) = rendered s"
  "mounted (init_effect r s) = mounted s"
  "pg (init_effect r s) = pg s"
  "deps_init (init_effect r s) = Some (init_deps r)"
  by (simp_all add: init_effect_def Let_def)

lemma marker_effect_frame:
  "cur_props (marker_effect r s) = cur_props s"
  "position (marker_effect r s) = position s"
  "errorMsg (marker_effect r s) = errorMsg s"
  "mapLoaded (marker_effect r s) = mapLoaded s"
  "mapRef (marker_effect r s) = mapRef s"
  "googleMapRef (marker_effect r s) = googleMapRef s"
  "deps_location (marker_effect r s) = deps_location s"
  "deps_script (marker_effect r s) = deps_script s"
  "deps_init (marker_effect r s) = deps_init s"
  "script (marker_effect r s) = script s"
  "script_pending (marker_effect r s) = script_pending s"
  "geo_pending (marker_effect r s) = geo_pending s"
  "geo_requests (marker_effect r s) = geo_requests s"
  "scripts_injected (marker_effect r s) = scripts_injected s"
  "gmaps (marker_effect r s) = gmaps s"
  "rendered (marker_effect r s) = rendered s"
  "mounted (marker_effect r s) = mounted s"
  "pg (marker_effect r s) = pg s"
  "deps_marker (marker_effect r s) = Some (marker_deps r)"
  by (simp_all add: marker_effect_def Let_def split: option.splits)

lemma render_frame:
  "cur_props (render s) = cur_props s"
  "position (render s) = position s"
  "errorMsg (render s) = errorMsg s"
  "mapLoaded (render s) = mapLoaded s"
  "googleMapRef (render s) = googleMapRef s"
  "userMarkerRef (render s) = userMarkerRef s"
  "deps_location (render s) = deps_location s"
  "deps_script (render s) = deps_script s"
  "deps_init (render s) = deps_init s"
  "deps_marker (render s) = deps_marker s"
  "script (render s) = script s"
  "script_pending (render s) = script_pending s"
  "geo_pending (render s) = geo_pending s"
  "geo_requests (render s) = geo_requests s"
  "scripts_injected (render s) = scripts_injected s"
  "gmaps (render s) = gmaps s"
  "markers (render s) = markers s"
  "mounted (render s) = mounted s"
  "pg (render s) = pg s"
  "rendered (render s) = view (errorMsg s)"
  "mapRef (render s) = (\<not> truthy (errorMsg s))"
  by (simp_all add: render_def)

lemmas frames = render_frame location_effect_frame script_effect_frame init_effect_frame
  marker_effect_frame

lemma commit_pass_facts:
  "rendered (commit_pass s) = view (errorMsg s)"
  "mapRef (commit_pass s) = (\<not> truthy (errorMsg s))"
  "deps_location (commit_pass s) = Some (show_location (cur_props s))"
  "deps_script (commit_pass s)"
  "deps_init (commit_pass s) = Some (init_deps s)"
  "deps_marker (commit_pass s) = Some (marker_deps s)"
  "cur_props (commit_pass s) = cur_props s"
  "position (commit_pass s) = position s"
  "mounted (commit_pass s) = mounted s"
  by (simp_all add: commit_pass_def frames)

lemma mapRegion_cong:
  "position s = position t \<Longrightarrow> cur_props s = cur_props t \<Longrightarrow> mapRegion s = mapRegion t"
  by (simp add: mapRegion_def split: option.splits)

lemma location_effect_skip:
  "deps_location s = Some (show_location (cur_props r)) \<Longrightarrow> location_effect r s = s"
  by (simp add: location_effect_def)

lemma script_effect_skip: "deps_script s \<Longrightarrow> script_effect r s = s"
  by (simp add: script_effect_def)

lemma init_effect_skip: "deps_init s = Some (init_deps r) \<Longrightarrow> init_effect r s = s"
  by (simp add: init_effect_def)

lemma marker_effect_skip: "deps_marker s = Some (marker_deps r) \<Longrightarrow> marker_effect r s = s"
  by (simp add: marker_effect_def)

lemma render_settled: "settled s \<Longrightarrow> render s = s"
  by (simp add: render_def settled_def)

lemma commit_pass_settled: "settled s \<Longrightarrow> commit_pass s = s"
  by (simp add: commit_pass_def render_settled location_effect_skip script_effect_skip
      init_effect_skip marker_effect_skip settled_def)

lemma hooks_second_pass:
  assumes "deps_location s = Some (show_location (cur_props s))" "deps_script s"
  shows "hooks (commit_pass s) = hooks s"
  using assms
  by (simp add: commit_pass_def hooks_def frames location_effect_skip script_effect_skip)

lemma deps_cong:
  assumes "hooks s = hooks t" "cur_props s = cur_props t"
  shows "init_deps s = init_deps t" "marker_deps s = marker_deps t"
  using assms mapRegion_cong [of s t] by (simp_all add: init_deps_def marker_deps_def hooks_def)

lemma settled_of_hooks:
  "hooks (commit_pass s) = hooks s \<Longrightarrow> settled (commit_pass s)"
  using deps_cong [of "commit_pass s" s]
  by (simp add: settled_def hooks_def commit_pass_facts)

lemma rerender_settled: "settled (rerender s)"
proof (cases "hooks (commit_pass s) = hooks s")
  case True
  then show ?thesis by (simp add: rerender_def settled_of_hooks)
next
  case False
  have "hooks (commit_pass (commit_pass s)) = hooks (commit_pass s)"
    by (rule hooks_second_pass) (simp_all add: commit_pass_facts)
  then have "settled (commit_pass (commit_pass s))" by (rule settled_of_hooks)
  with False show ?thesis by (simp add: rerender_def)
qed

lemma rerender_stable: "commit_pass (rerender s) = rerender s"
  by (rule commit_pass_settled) (rule rerender_settled)

lemma rerender_idem: "settled s \<Longrightarrow> rerender s = s"
  by (simp add: rerender_def commit_pass_settled)



lemma rerender_cases: "rerender s = commit_pass s \<or> rerender s = commit_pass (commit_pass s)"
  by (simp add: rerender_def Let_def)

lemma rerender_preserves:
  assumes "P s" and "\<And>t. P t \<Longrightarrow> P (commit_pass t)"
  shows "P (rerender s)"
  using rerender_cases [of s] assms by auto

lemma web_run_preserves:
  assumes "P s" and "\<And>t e. P t \<Longrightarrow> P (web_step e t)"
  shows "P (web_run s evs)"
  using assms(1) by (induction evs arbitrary: s) (simp_all add: assms(2))

lemma web_run_append: "web_run s (xs @ ys) = web_run (web_run s xs) ys"
  by (induction xs arbitrary: s) simp_all

lemma rerender_frame:
  "cur_props (rerender s) = cur_props s"
  "position (rerender s) = position s"
  "mounted (rerender s) = mounted s"
  using rerender_cases [of s] by (auto simp: commit_pass_facts)

lemma commit_pass_errorMsg:
  "errorMsg (commit_pass s) = errorMsg s
   \<or> errorMsg (commit_pass s) = Some ''Geolocation is not supported by this browser''"
  by (simp add: commit_pass_def frames location_effect_def Let_def)

lemma commit_pass_error_nonempty:
  "errorMsg s \<noteq> Some [] \<Longrightarrow> errorMsg (commit_pass s) \<noteq> Some []"
  using commit_pass_errorMsg [of s] by auto

lemma rerender_synced:
  assumes "errorMsg s \<noteq> Some []" "mounted s"
  shows "synced (rerender s)"
proof -
  have "errorMsg (rerender s) \<noteq> Some []"
    by (rule rerender_preserves [where P = "\<lambda>t. errorMsg t \<noteq> Some []"])
       (simp_all add: assms commit_pass_error_nonempty)
  then show ?thesis
    using assms by (simp add: synced_def rerender_settled rerender_frame)
qed

lemma synced_step: "synced s \<Longrightarrow> synced (web_step e s)"
proof (cases e)
  case (GeoSuccess pos)
  assume "synced s"
  then show ?thesis unfolding GeoSuccess
    by (auto simp: Let_def intro!: rerender_synced) (auto simp: synced_def)
next
  case (GeoError m)
  assume "synced s"
  then show ?thesis unfolding GeoError
    by (auto simp: Let_def intro!: rerender_synced) (auto simp: synced_def)
next
  case ScriptLoad
  assume "synced s"
  then show ?thesis unfolding ScriptLoad
    by (auto simp: Let_def intro!: rerender_synced) (auto simp: synced_def)
next
  case ScriptError
  assume "synced s"
  then show ?thesis unfolding ScriptError
    by (auto simp: Let_def intro!: rerender_synced) (auto simp: synced_def)
next
  case (SetProps q)
  assume "synced s"
  then show ?thesis unfolding SetProps
    by (auto simp: Let_def intro!: rerender_synced) (auto simp: synced_def)
next
  case Unmount
  assume "synced s"
  then show ?thesis unfolding Unmount
    by (auto simp: Let_def synced_def split: option.splits)
qed

lemma synced_mount: "synced (Maps_web g p)"
  unfolding Maps_web_def by (rule rerender_synced) (simp_all add: init_state_def)

lemma synced_run: "synced (web_run (Maps_web g p) evs)"
  by (rule web_run_preserves [where P = synced]) (simp_all add: synced_mount synced_step)

lemma view_error: "m \<noteq> [] \<Longrightarrow> view (Some m) = [ErrorText m]"
  by (simp add: view_def truthy_def)

lemma view_exclusive: "\<not> (MapDiv \<in> set (view e) \<and> (\<exists>t. ErrorText t \<in> set (view e)))"
  by (simp add: view_def)

lemma web_error_text:
  "(mounted (web_run (Maps_web g p) evs) \<and> errorMsg (web_run (Maps_web g p) evs) = Some m
      \<longrightarrow> rendered (web_run (Maps_web g p) evs) = [ErrorText m]
          \<and> \<not> mapRef (web_run (Maps_web g p) evs))
   \<and> \<not> (MapDiv \<in> set (rendered (web_run (Maps_web g p) evs))
          \<and> (\<exists>t. ErrorText t \<in> set (rendered (web_run (Maps_web g p) evs))))"
proof -
  define s where "s = web_run (Maps_web g p) evs"
  have syn: "synced s" unfolding s_def by (rule synced_run)
  have a: "rendered s = [ErrorText m] \<and> \<not> mapRef s" if "mounted s" "errorMsg s = Some m"
    using syn that by (auto simp: synced_def settled_def view_error truthy_def)
  have b: "\<not> (MapDiv \<in> set (rendered s) \<and> (\<exists>t. ErrorText t \<in> set (rendered s)))"
  proof (cases "mounted s")
    case True
    with syn have "rendered s = view (errorMsg s)" by (simp add: synced_def settled_def)
    then show ?thesis using view_exclusive by simp
  next
    case False
    with syn show ?thesis by (simp add: synced_def)
  qed
  from a b show ?thesis unfolding s_def by blast
qed

subsection \<open>Unfolding the model on concrete inputs\<close>

lemmas web_defs = Maps_web_def init_state_def rerender_def commit_pass_def render_def
  location_effect_def script_effect_def init_effect_def marker_effect_def hooks_def
  init_deps_def marker_deps_def
  mapRegion_def view_def truthy_def show_location_def defaultRegion_def Let_def
  fresh_page_def no_props_def hidden_props_def reading_a_def reading_b_def

lemmas native_defs = Maps_native_def native_init_def native_pass_def
  native_location_effect_def native_view_def truthy_def show_location_def
  defaultRegion_def Let_def no_props_def hidden_props_def reading_a_def reading_b_def

subsection \<open>The native component renders what its state says\<close>

lemma native_pass_frame:
  "n_props (native_pass s) = n_props s"
  "n_region (native_pass s) = n_region s"
  "n_location (native_pass s) = n_location s"
  "n_errorMsg (native_pass s) = n_errorMsg s"
  "loc_pending (native_pass s) = loc_pending s"
  "loc_requests (native_pass s) = loc_requests s"
  "n_mounted (native_pass s) = n_mounted s"
  "n_rendered (native_pass s) = native_view s"
  "n_deps_location (native_pass s) = Some (show_location (n_props s))"
  by (simp_all add: native_pass_def native_location_effect_def Let_def)

lemma native_view_pass: "native_view (native_pass s) = native_view s"
  by (simp add: native_view_def native_pass_frame)

lemma native_pass_synced:
  "n_errorMsg s \<noteq> Some [] \<Longrightarrow> n_mounted s \<Longrightarrow> native_synced (native_pass s)"
  by (simp add: native_synced_def native_pass_frame native_view_pass)

lemma native_synced_step: "native_synced s \<Longrightarrow> native_synced (native_step e s)"
proof (cases e)
  case (PermissionResult granted)
  assume "native_synced s"
  then show ?thesis unfolding PermissionResult
    by (auto simp: Let_def intro!: native_pass_synced)
       (auto simp: native_synced_def native_view_def)
next
  case (LocationResult l)
  assume "native_synced s"
  then show ?thesis unfolding LocationResult
    by (auto simp: Let_def intro!: native_pass_synced) (auto simp: native_synced_def)
next
  case LocationFailure
  assume "native_synced s"
  then show ?thesis unfolding LocationFailure
    by (auto simp: Let_def intro!: native_pass_synced) (auto simp: native_synced_def)
next
  case (RegionChangeComplete r)
  assume "native_synced s"
  then show ?thesis unfolding RegionChangeComplete
    by (auto simp: Let_def intro!: native_pass_synced) (auto simp: native_synced_def)
next
  case (NativeSetProps q)
  assume "native_synced s"
  then show ?thesis unfolding NativeSetProps
    by (auto simp: Let_def intro!: native_pass_synced) (auto simp: native_synced_def)
next
  case NativeUnmount
  assume "native_synced s"
  then show ?thesis unfolding NativeUnmount
    by (auto simp: native_synced_def)
qed

lemma native_run_preserves:
  assumes "P s" and "\<And>t e. P t \<Longrightarrow> P (native_step e t)"
  shows "P (native_run s evs)"
  using assms(1) by (induction evs arbitrary: s) (simp_all add: assms(2))

lemma native_synced_mount: "native_synced (Maps_native p)"
  unfolding Maps_native_def by (rule native_pass_synced) (simp_all add: native_init_def)

lemma native_synced_run: "native_synced (native_run (Maps_native p) evs)"
  by (rule native_run_preserves [where P = native_synced])
     (simp_all add: native_synced_mount native_synced_step)

lemma native_error_text:
  "(n_mounted (native_run (Maps_native p) evs)
      \<and> n_errorMsg (native_run (Maps_native p) evs) = Some m
      \<longrightarrow> n_rendered (native_run (Maps_native p) evs) = [NativeErrorText m])
   \<and> \<not> ((\<exists>r b ms. MapView r b ms \<in> set (n_rendered (native_run (Maps_native p) evs)))
          \<and> (\<exists>t. NativeErrorText t \<in> set (n_rendered (native_run (Maps_native p) evs))))"
proof -
  define s where "s = native_run (Maps_native p) evs"
  have syn: "native_synced s" unfolding s_def by (rule native_synced_run)
  have a: "n_rendered s = [NativeErrorText m]" if "n_mounted s" "n_errorMsg s = Some m"
    using syn that by (auto simp: native_synced_def native_view_def truthy_def)
  have b: "\<not> ((\<exists>r b ms. MapView r b ms \<in> set (n_rendered s))
          \<and> (\<exists>t. NativeErrorText t \<in> set (n_rendered s)))"
    using syn by (cases "n_mounted s") (auto simp: native_synced_def native_view_def)
  from a b show ?thesis unfolding s_def by blast
qed

subsection \<open>Error text and map surface\<close>

text \<open>
  Claim C2: in every state either implementation reaches from its mount, by any events and
  for any props, a recorded error (every message the code records is a non-empty string)
  is rendered as the error text and the map surface (the container div on the web, the
  \<^verbatim>\<open>MapView\<close> on native) is not rendered; in no such state are an error text and a map
  surface rendered together.
\<close>

theorem error_text_excludes_map:
  assumes "W = web_run (Maps_web g p) evs" and "N = native_run (Maps_native q) nevs"
  shows "(mounted W \<and> errorMsg W = Some m \<longrightarrow> rendered W = [ErrorText m] \<and> \<not> mapRef W)
     \<and> \<not> (MapDiv \<in> set (rendered W) \<and> (\<exists>t. ErrorText t \<in> set (rendered W)))
     \<and> (n_mounted N \<and> n_errorMsg N = Some m' \<longrightarrow> n_rendered N = [NativeErrorText m'])
     \<and> \<not> ((\<exists>r b ms. MapView r b ms \<in> set (n_rendered N))
            \<and> (\<exists>t. NativeErrorText t \<in> set (n_rendered N)))"
  unfolding assms using web_error_text [of g p evs m] native_error_text [of q nevs m']
  by blast

theorem error_text_excludes_map_witness:
  "mounted (web_run (Maps_web fresh_page no_props) [GeoError ''denied''])
   \<and> errorMsg (web_run (Maps_web fresh_page no_props) [GeoError ''denied''])
       = Some ''Error getting location: denied''
   \<and> rendered (web_run (Maps_web fresh_page no_props) [GeoError ''denied''])
       = [ErrorText ''Error getting location: denied'']
   \<and> n_mounted (native_run (Maps_native no_props) [PermissionResult False])
   \<and> n_errorMsg (native_run (Maps_native no_props) [PermissionResult False])
       = Some ''Permission to access location was denied''
   \<and> n_rendered (native_run (Maps_native no_props) [PermissionResult False])
       = [NativeErrorText ''Permission to access location was denied'']"
proof -
  have w: "mounted (web_run (Maps_web fresh_page no_props) [GeoError ''denied''])
    \<and> errorMsg (web_run (Maps_web fresh_page no_props) [GeoError ''denied''])
       = Some ''Error getting location: denied''"
    by (simp add: web_defs)
  have n: "n_mounted (native_run (Maps_native no_props) [PermissionResult False])
   \<and> n_errorMsg (native_run (Maps_native no_props) [PermissionResult False])
       = Some ''Permission to access location was denied''"
    by (simp add: native_defs)
  show ?thesis
    using w n error_text_excludes_map [OF refl refl, where g = fresh_page and p = no_props
        and evs = "[GeoError ''denied'']" and m = "''Error getting location: denied''"
        and q = no_props and nevs = "[PermissionResult False]"
        and m' = "''Permission to access location was denied''"]
    by blast
qed

subsection \<open>Regions and the maps constructed from them\<close>

lemma mapRegion_default:
  "position s = None \<Longrightarrow> initialRegion (cur_props s) = None \<Longrightarrow> mapRegion s = defaultRegion"
  by (simp add: mapRegion_def)

lemma init_effect_gmaps:
  "gmaps (init_effect r s) = gmaps s
   \<or> gmaps (init_effect r s) = gmaps s @
        [\<lparr>map_center = (latitude (mapRegion r), longitude (mapRegion r)),
          map_zoom = zoom (latitudeDelta (mapRegion r))\<rparr>]"
  by (simp add: init_effect_def Let_def)

lemma commit_pass_gmaps:
  "gmaps (commit_pass s) = gmaps s
   \<or> gmaps (commit_pass s) = gmaps s @
        [\<lparr>map_center = (latitude (mapRegion s), longitude (mapRegion s)),
          map_zoom = zoom (latitudeDelta (mapRegion s))\<rparr>]"
  using init_effect_gmaps [of s "script_effect s (location_effect s (render s))"]
  by (simp add: commit_pass_def frames)

lemma commit_pass_centered:
  assumes "\<forall>m \<in> set (gmaps s). centered (mapRegion s) m"
  shows "\<forall>m \<in> set (gmaps (commit_pass s)). centered (mapRegion (commit_pass s)) m"
proof -
  have "mapRegion (commit_pass s) = mapRegion s"
    by (rule mapRegion_cong) (simp_all add: commit_pass_facts)
  then show ?thesis using assms commit_pass_gmaps [of s] by (auto simp: centered_def)
qed

lemma mount_centered: "\<forall>m \<in> set (gmaps (Maps_web g p)). centered (mapRegion (Maps_web g p)) m"
  unfolding Maps_web_def
  by (rule rerender_preserves [where P = "\<lambda>t. \<forall>m \<in> set (gmaps t). centered (mapRegion t) m"])
     (simp_all add: init_state_def commit_pass_centered)

lemma mount_position: "position (Maps_web g p) = None" "cur_props (Maps_web g p) = p"
  by (simp_all add: Maps_web_def rerender_frame init_state_def)

lemma native_mount_view:
  "n_region (Maps_native p) = (case initialRegion p of Some r \<Rightarrow> r | None \<Rightarrow> defaultRegion)"
  "n_rendered (Maps_native p) =
     [MapView (case initialRegion p of Some r \<Rightarrow> r | None \<Rightarrow> defaultRegion) (show_location p) []]"
  by (simp_all add: Maps_native_def native_pass_frame native_init_def native_view_def truthy_def)

lemma mapRegion_commit_pass: "mapRegion (commit_pass s) = mapRegion s"
  by (rule mapRegion_cong) (simp_all add: commit_pass_facts)

lemma mapRegion_rerender: "mapRegion (rerender s) = mapRegion s"
  by (rule mapRegion_cong) (simp_all add: rerender_frame)

lemma commit_pass_new_maps:
  "set (gmaps (commit_pass s)) \<subseteq> set (gmaps s) \<union> {m. centered (mapRegion s) m}"
  using commit_pass_gmaps [of s] by (auto simp: centered_def)

lemma rerender_new_maps:
  "set (gmaps (rerender s)) \<subseteq> set (gmaps s) \<union> {m. centered (mapRegion (rerender s)) m}"
  using rerender_cases [of s] commit_pass_new_maps [of s] commit_pass_new_maps [of "commit_pass s"]
  by (auto simp: mapRegion_commit_pass mapRegion_rerender)

lemma step_new_maps:
  "set (gmaps (web_step e s)) \<subseteq> set (gmaps s) \<union> {m. centered (mapRegion (web_step e s)) m}"
proof (cases e)
  case (GeoSuccess pos)
  show ?thesis unfolding GeoSuccess
    using rerender_new_maps [of "s\<lparr>geo_pending := geo_pending s - 1, position := Some pos\<rparr>"]
    by (auto simp: Let_def)
next
  case (GeoError m)
  show ?thesis unfolding GeoError
    using rerender_new_maps [of "s\<lparr>geo_pending := geo_pending s - 1,
        errorMsg := Some (''Error getting location: '' @ m)\<rparr>"]
    by (auto simp: Let_def)
next
  case ScriptLoad
  show ?thesis unfolding ScriptLoad
    using rerender_new_maps [of "s\<lparr>script_pending := False, pg := (pg s)\<lparr>google_maps := True\<rparr>,
        mapLoaded := True\<rparr>"]
    by (auto simp: Let_def)
next
  case ScriptError
  show ?thesis unfolding ScriptError
    using rerender_new_maps [of "s\<lparr>script_pending := False,
        errorMsg := Some ''Failed to load Google Maps''\<rparr>"]
    by (auto simp: Let_def)
next
  case (SetProps q)
  show ?thesis unfolding SetProps
    using rerender_new_maps [of "s\<lparr>cur_props := q\<rparr>"] by (auto simp: Let_def)
next
  case Unmount
  show ?thesis unfolding Unmount by (auto simp: Let_def split: option.splits)
qed

lemma after_load:
  "web_run (Maps_web fresh_page no_props) [ScriptLoad] =
     \<lparr>cur_props = no_props, position = None, errorMsg = None, mapLoaded = True,
      mapRef = True, googleMapRef = Some 0, userMarkerRef = None,
      deps_location = Some True, deps_script = True,
      deps_init = Some (True, 37.78825, -122.4324, 0.0922),
      deps_marker = Some (None, True, True),
      script = Some 0, script_pending = False, geo_pending = 1, geo_requests = 1,
      scripts_injected = 1,
      gmaps = [\<lparr>map_center = (37.78825, -122.4324), map_zoom = zoom 0.0922\<rparr>],
      markers = [], rendered = [MapDiv], mounted = True,
      pg = \<lparr>navigator_geolocation = Some True, google_maps = True, head = [0],
            nodes_created = 1\<rparr>\<rparr>"
  by (simp add: web_defs)

text \<open>
  Claim C1: a mount of either implementation without a caller-supplied region (no reading
  has been obtained at mount) starts from the default region 37.78825, -122.4324, 0.0922,
  0.0421: it is the region of the web component at mount and in every later state that
  holds no reading, every map object the web mount constructs is centered on it, and it is
  the region state and the \<^verbatim>\<open>region\<close> prop of the rendered \<^verbatim>\<open>MapView\<close> on native.
\<close>

theorem default_region_at_mount:
  assumes "initialRegion p = None"
  shows "mapRegion (Maps_web g p) = defaultRegion
     \<and> (cur_props s = p \<and> position s = None \<longrightarrow> mapRegion s = defaultRegion)
     \<and> (\<forall>m \<in> set (gmaps (Maps_web g p)).
           map_center m = (37.78825, -122.4324) \<and> map_zoom m = zoom 0.0922)
     \<and> n_region (Maps_native p) = defaultRegion
     \<and> n_rendered (Maps_native p) = [MapView defaultRegion (show_location p) []]
     \<and> defaultRegion =
         \<lparr>latitude = 37.78825, longitude = -122.4324,
          latitudeDelta = 0.0922, longitudeDelta = 0.0421\<rparr>"
proof -
  have r: "mapRegion (Maps_web g p) = defaultRegion"
    by (rule mapRegion_default) (simp_all add: mount_position assms)
  have "\<forall>m \<in> set (gmaps (Maps_web g p)). centered defaultRegion m"
    using mount_centered [of g p] by (simp add: r)
  then have m: "\<forall>m \<in> set (gmaps (Maps_web g p)).
           map_center m = (37.78825, -122.4324) \<and> map_zoom m = zoom 0.0922"
    by (simp add: centered_def defaultRegion_def)
  have g: "cur_props s = p \<and> position s = None \<longrightarrow> mapRegion s = defaultRegion"
    using assms by (auto intro: mapRegion_default)
  show ?thesis using r m g by (simp add: native_mount_view assms) (simp add: defaultRegion_def)
qed

theorem default_region_at_mount_witness:
  "initialRegion no_props = None
   \<and> gmaps (Maps_web loaded_page no_props) =
       [\<lparr>map_center = (37.78825, -122.4324), map_zoom = zoom 0.0922\<rparr>]
   \<and> mapRegion (Maps_web loaded_page no_props) = defaultRegion
   \<and> n_region (Maps_native no_props) = defaultRegion"
proof -
  have h: "initialRegion no_props = None" by (simp add: no_props_def)
  have g: "gmaps (Maps_web loaded_page no_props) =
       [\<lparr>map_center = (37.78825, -122.4324), map_zoom = zoom 0.0922\<rparr>]"
    by (simp add: web_defs loaded_page_def)
  show ?thesis
    using h g default_region_at_mount [OF h, where g = loaded_page
        and s = "Maps_web loaded_page no_props"]
    by simp
qed

text \<open>
  Claim C8: the region of the web component is the reading's coordinates (with the fixed
  deltas) when a reading is held, else the caller's \<^verbatim>\<open>initialRegion\<close> when given, else the
  default region; and every map object an event constructs is centered on the region of
  the state the event leads to.
\<close>

theorem region_precedence:
  "(position s = Some pos \<longrightarrow>
      mapRegion s = \<lparr>latitude = coords_latitude pos, longitude = coords_longitude pos,
                     latitudeDelta = 0.0922, longitudeDelta = 0.0421\<rparr>)
   \<and> (position s = None \<and> initialRegion (cur_props s) = Some r \<longrightarrow> mapRegion s = r)
   \<and> (position s = None \<and> initialRegion (cur_props s) = None \<longrightarrow> mapRegion s = defaultRegion)
   \<and> (\<forall>m \<in> set (gmaps (web_step e s)) - set (gmaps s).
         map_center m = (latitude (mapRegion (web_step e s)),
                         longitude (mapRegion (web_step e s))))"
  using step_new_maps [of e s] by (auto simp: mapRegion_def centered_def)

theorem region_precedence_witness:
  "position (web_run (Maps_web fresh_page no_props) [ScriptLoad, GeoSuccess reading_a])
     = Some reading_a
   \<and> mapRegion (web_run (Maps_web fresh_page no_props) [ScriptLoad, GeoSuccess reading_a])
     = \<lparr>latitude = 10, longitude = 20, latitudeDelta = 0.0922, longitudeDelta = 0.0421\<rparr>
   \<and> position (Maps_web fresh_page custom_props) = None
   \<and> mapRegion (Maps_web fresh_page custom_props)
     = \<lparr>latitude = 48, longitude = 2, latitudeDelta = 1, longitudeDelta = 1\<rparr>
   \<and> position (Maps_web fresh_page no_props) = None
   \<and> mapRegion (Maps_web fresh_page no_props) = defaultRegion
   \<and> gmaps (web_step (GeoSuccess reading_a)
               (web_run (Maps_web fresh_page no_props) [ScriptLoad]))
     = gmaps (web_run (Maps_web fresh_page no_props) [ScriptLoad])
       @ [\<lparr>map_center = (10, 20), map_zoom = zoom 0.0922\<rparr>]
   \<and> (latitude (mapRegion (web_step (GeoSuccess reading_a)
                  (web_run (Maps_web fresh_page no_props) [ScriptLoad]))),
       longitude (mapRegion (web_step (GeoSuccess reading_a)
                  (web_run (Maps_web fresh_page no_props) [ScriptLoad]))))
     = (10, 20)"
proof -
  let ?s0 = "web_run (Maps_web fresh_page no_props) [ScriptLoad]"
  let ?s1 = "web_run (Maps_web fresh_page no_props) [ScriptLoad, GeoSuccess reading_a]"
  have p1: "position ?s1 = Some reading_a" by (simp add: web_defs)
  have p2: "position (Maps_web fresh_page custom_props) = None
      \<and> initialRegion (cur_props (Maps_web fresh_page custom_props))
          = Some \<lparr>latitude = 48, longitude = 2, latitudeDelta = 1, longitudeDelta = 1\<rparr>"
    by (simp add: web_defs custom_props_def)
  have p3: "position (Maps_web fresh_page no_props) = None
      \<and> initialRegion (cur_props (Maps_web fresh_page no_props)) = None"
    by (simp add: web_defs)
  have p4: "gmaps (web_step (GeoSuccess reading_a) ?s0) =
      gmaps ?s0 @ [\<lparr>map_center = (10, 20), map_zoom = zoom 0.0922\<rparr>]
      \<and> \<lparr>map_center = (10, 20), map_zoom = zoom 0.0922\<rparr> \<notin> set (gmaps ?s0)"
    unfolding after_load by (simp add: web_defs)
  have r1: "mapRegion ?s1 = \<lparr>latitude = coords_latitude reading_a,
      longitude = coords_longitude reading_a, latitudeDelta = 0.0922, longitudeDelta = 0.0421\<rparr>"
    using region_precedence [where s = ?s1 and pos = reading_a] p1 by blast
  have r2: "mapRegion (Maps_web fresh_page custom_props)
     = \<lparr>latitude = 48, longitude = 2, latitudeDelta = 1, longitudeDelta = 1\<rparr>"
    using region_precedence [where s = "Maps_web fresh_page custom_props"
        and r = "\<lparr>latitude = 48, longitude = 2, latitudeDelta = 1, longitudeDelta = 1\<rparr>"] p2
    by blast
  have r3: "mapRegion (Maps_web fresh_page no_props) = defaultRegion"
    using region_precedence [where s = "Maps_web fresh_page no_props"] p3 by blast
  have mem: "\<lparr>map_center = (10, 20), map_zoom = zoom 0.0922\<rparr>
      \<in> set (gmaps (web_step (GeoSuccess reading_a) ?s0)) - set (gmaps ?s0)"
    using p4 by simp
  have "\<forall>m \<in> set (gmaps (web_step (GeoSuccess reading_a) ?s0)) - set (gmaps ?s0).
      map_center m = (latitude (mapRegion (web_step (GeoSuccess reading_a) ?s0)),
                      longitude (mapRegion (web_step (GeoSuccess reading_a) ?s0)))"
    using region_precedence [where s = ?s0 and e = "GeoSuccess reading_a"] by (rule conjunct2 [THEN conjunct2, THEN conjunct2])
  from bspec [OF this mem]
  have r4: "(latitude (mapRegion (web_step (GeoSuccess reading_a) ?s0)),
      longitude (mapRegion (web_step (GeoSuccess reading_a) ?s0))) = (10, 20)"
    by simp
  have r1': "mapRegion ?s1
     = \<lparr>latitude = 10, longitude = 20, latitudeDelta = 0.0922, longitudeDelta = 0.0421\<rparr>"
    using r1 by (simp add: reading_a_def)
  from p1 r1' p2 r2 p3 r3 p4 r4 show ?thesis by blast
qed

subsection \<open>When the initialisation effect constructs a map\<close>

lemma commit_pass_pg_facts:
  "google_maps (pg (commit_pass s)) = google_maps (pg s)"
  "navigator_geolocation (pg (commit_pass s)) = navigator_geolocation (pg s)"
  by (simp_all add: commit_pass_def frames)

lemma commit_pass_mapLoaded:
  "mapLoaded (commit_pass s) = (mapLoaded s \<or> (\<not> deps_script s \<and> google_maps (pg s)))"
  by (simp add: commit_pass_def frames script_effect_def Let_def)

lemma commit_pass_loaded_inv: "loaded_inv s \<Longrightarrow> loaded_inv (commit_pass s)"
  by (auto simp: loaded_inv_def commit_pass_pg_facts commit_pass_mapLoaded)

lemma rerender_loaded_inv: "loaded_inv s \<Longrightarrow> loaded_inv (rerender s)"
  by (rule rerender_preserves [where P = loaded_inv]) (simp_all add: commit_pass_loaded_inv)

lemma loaded_inv_step: "loaded_inv s \<Longrightarrow> loaded_inv (web_step e s)"
proof (cases e)
  case Unmount
  assume "loaded_inv s"
  then show ?thesis unfolding Unmount
    by (auto simp: loaded_inv_def Let_def split: option.splits)
qed (auto simp: Let_def intro!: rerender_loaded_inv, auto simp: loaded_inv_def)

lemma loaded_inv_run: "loaded_inv (web_run (Maps_web g p) evs)"
proof (rule web_run_preserves [where P = loaded_inv])
  show "loaded_inv (Maps_web g p)"
    unfolding Maps_web_def by (rule rerender_loaded_inv) (simp add: loaded_inv_def init_state_def)
qed (rule loaded_inv_step)

lemma commit_pass_quiet:
  assumes "deps_location t = Some (show_location (cur_props t))" "deps_script t"
  shows "commit_pass t = marker_effect t (init_effect t (render t))"
  using assms by (simp add: commit_pass_def frames location_effect_skip script_effect_skip)

lemma rerender_quiet:
  assumes "deps_location t = Some (show_location (cur_props t))" "deps_script t"
  shows "rerender t = marker_effect t (init_effect t (render t))"
  using hooks_second_pass [OF assms] commit_pass_quiet [OF assms] by (simp add: rerender_def)

lemma commit_pass_gmaps_skip:
  "deps_init t = Some (init_deps t) \<Longrightarrow> gmaps (commit_pass t) = gmaps t"
  by (simp add: commit_pass_def frames init_effect_skip)

lemma init_deps_cong:
  "mapLoaded s = mapLoaded t \<Longrightarrow> position s = position t \<Longrightarrow> cur_props s = cur_props t
   \<Longrightarrow> init_deps s = init_deps t"
  using mapRegion_cong [of s t] by (simp add: init_deps_def)

lemma rerender_gmaps_skip:
  assumes "deps_init t = Some (init_deps t)" "deps_script t"
  shows "gmaps (rerender t) = gmaps t"
proof -
  have 1: "gmaps (commit_pass t) = gmaps t" using assms(1) by (rule commit_pass_gmaps_skip)
  have "mapLoaded (commit_pass t) = mapLoaded t"
    using assms(2) by (simp add: commit_pass_mapLoaded)
  then have "init_deps (commit_pass t) = init_deps t"
    by (rule init_deps_cong) (simp_all add: commit_pass_facts)
  then have "gmaps (commit_pass (commit_pass t)) = gmaps (commit_pass t)"
    by (intro commit_pass_gmaps_skip) (simp add: commit_pass_facts)
  with 1 show ?thesis using rerender_cases [of t] by auto
qed

lemma init_effect_constructs:
  assumes "deps_init s \<noteq> Some (init_deps r)" "mapLoaded r" "mapRef s" "google_maps (pg s)"
  shows "gmaps (init_effect r s) = gmaps s @
           [\<lparr>map_center = (latitude (mapRegion r), longitude (mapRegion r)),
             map_zoom = zoom (latitudeDelta (mapRegion r))\<rparr>]"
  using assms by (simp add: init_effect_def Let_def)

text \<open>
  Claim C4 as the code has it: the initialisation effect has no guard on an existing map
  object, so in a mounted component a props change or a position reading that leaves
  \<^verbatim>\<open>mapLoaded\<close> and the region's latitude, longitude and latitudeDelta as they were
  constructs no map object, and a reading that changes them, arriving when the script is
  loaded and no error is shown, constructs one more map object, centered on the reading.
\<close>

theorem map_constructed_per_tracked_change:
  assumes "s = web_run (Maps_web g p) evs" and "mounted s"
  shows "(init_deps (s\<lparr>cur_props := q\<rparr>) = init_deps s
            \<longrightarrow> gmaps (web_step (SetProps q) s) = gmaps s)
     \<and> (0 < geo_pending s \<and> init_deps (s\<lparr>position := Some pos\<rparr>) = init_deps s
            \<longrightarrow> gmaps (web_step (GeoSuccess pos) s) = gmaps s)
     \<and> (0 < geo_pending s \<and> mapLoaded s \<and> errorMsg s = None
          \<and> init_deps (s\<lparr>position := Some pos\<rparr>) \<noteq> init_deps s
            \<longrightarrow> gmaps (web_step (GeoSuccess pos) s) = gmaps s @
                  [\<lparr>map_center = (coords_latitude pos, coords_longitude pos),
                    map_zoom = zoom 0.0922\<rparr>])"
proof -
  have "synced s" unfolding assms(1) by (rule synced_run)
  with assms(2) have st: "settled s" by (simp add: synced_def)
  have li: "loaded_inv s" unfolding assms(1) by (rule loaded_inv_run)
  have a: "gmaps (web_step (SetProps q) s) = gmaps s"
    if "init_deps (s\<lparr>cur_props := q\<rparr>) = init_deps s"
  proof -
    have "gmaps (rerender (s\<lparr>cur_props := q\<rparr>)) = gmaps (s\<lparr>cur_props := q\<rparr>)"
      by (rule rerender_gmaps_skip) (use st that in \<open>simp_all add: settled_def\<close>)
    then show ?thesis using assms(2) by simp
  qed
  have b: "gmaps (web_step (GeoSuccess pos) s) = gmaps s"
    if "0 < geo_pending s" "init_deps (s\<lparr>position := Some pos\<rparr>) = init_deps s"
  proof -
    let ?t = "s\<lparr>geo_pending := geo_pending s - 1, position := Some pos\<rparr>"
    have "init_deps ?t = init_deps (s\<lparr>position := Some pos\<rparr>)"
      by (rule init_deps_cong) simp_all
    then have "gmaps (rerender ?t) = gmaps ?t"
      by (intro rerender_gmaps_skip) (use st that in \<open>simp_all add: settled_def\<close>)
    then show ?thesis using assms(2) that(1) by (simp add: Let_def)
  qed
  have c: "gmaps (web_step (GeoSuccess pos) s) = gmaps s @
                  [\<lparr>map_center = (coords_latitude pos, coords_longitude pos),
                    map_zoom = zoom 0.0922\<rparr>]"
    if "0 < geo_pending s" "mapLoaded s" "errorMsg s = None"
      "init_deps (s\<lparr>position := Some pos\<rparr>) \<noteq> init_deps s"
  proof -
    let ?t = "s\<lparr>geo_pending := geo_pending s - 1, position := Some pos\<rparr>"
    have d: "init_deps ?t = init_deps (s\<lparr>position := Some pos\<rparr>)"
      by (rule init_deps_cong) simp_all
    have q: "rerender ?t = marker_effect ?t (init_effect ?t (render ?t))"
      by (rule rerender_quiet) (use st in \<open>simp_all add: settled_def\<close>)
    have "gmaps (init_effect ?t (render ?t)) = gmaps (render ?t) @
           [\<lparr>map_center = (latitude (mapRegion ?t), longitude (mapRegion ?t)),
             map_zoom = zoom (latitudeDelta (mapRegion ?t))\<rparr>]"
    proof (rule init_effect_constructs)
      show "deps_init (render ?t) \<noteq> Some (init_deps ?t)"
        using st that(4) d by (simp add: render_frame settled_def)
      show "mapLoaded ?t" using that(2) by simp
      show "mapRef (render ?t)" using that(3) by (simp add: render_frame truthy_def)
      show "google_maps (pg (render ?t))"
        using li that(2) by (simp add: render_frame loaded_inv_def)
    qed
    moreover have "gmaps (rerender ?t) = gmaps (init_effect ?t (render ?t))"
      by (simp only: q marker_effect_frame)
    ultimately have "gmaps (rerender ?t) = gmaps (render ?t) @
           [\<lparr>map_center = (latitude (mapRegion ?t), longitude (mapRegion ?t)),
             map_zoom = zoom (latitudeDelta (mapRegion ?t))\<rparr>]"
      by (rule trans [rotated])
    then have "gmaps (rerender ?t) = gmaps s @
           [\<lparr>map_center = (coords_latitude pos, coords_longitude pos),
             map_zoom = zoom 0.0922\<rparr>]"
      by (simp add: render_frame mapRegion_def)
    then show ?thesis using assms(2) that(1) by (simp add: Let_def)
  qed
  from a b c show ?thesis by blast
qed

text \<open>Claim C4 as stated (at most one map object per mount): after the script has loaded
  there is one map object, and the first reading makes a second one.\<close>

theorem second_map_on_reading:
  "length (gmaps (web_run (Maps_web fresh_page no_props) [ScriptLoad])) = 1
   \<and> length (gmaps (web_run (Maps_web fresh_page no_props) [ScriptLoad, GeoSuccess reading_a])) = 2"
  by (simp add: web_defs)

theorem map_constructed_per_tracked_change_witness:
  "mounted (web_run (Maps_web fresh_page no_props) [ScriptLoad])
   \<and> 0 < geo_pending (web_run (Maps_web fresh_page no_props) [ScriptLoad])
   \<and> mapLoaded (web_run (Maps_web fresh_page no_props) [ScriptLoad])
   \<and> errorMsg (web_run (Maps_web fresh_page no_props) [ScriptLoad]) = None
   \<and> init_deps ((web_run (Maps_web fresh_page no_props) [ScriptLoad])\<lparr>position := Some reading_a\<rparr>)
       \<noteq> init_deps (web_run (Maps_web fresh_page no_props) [ScriptLoad])
   \<and> gmaps (web_step (GeoSuccess reading_a) (web_run (Maps_web fresh_page no_props) [ScriptLoad]))
       = gmaps (web_run (Maps_web fresh_page no_props) [ScriptLoad])
         @ [\<lparr>map_center = (10, 20), map_zoom = zoom 0.0922\<rparr>]
   \<and> init_deps ((web_run (Maps_web fresh_page no_props) [ScriptLoad])\<lparr>position := Some reading_home\<rparr>)
       = init_deps (web_run (Maps_web fresh_page no_props) [ScriptLoad])
   \<and> gmaps (web_step (GeoSuccess reading_home) (web_run (Maps_web fresh_page no_props) [ScriptLoad]))
       = gmaps (web_run (Maps_web fresh_page no_props) [ScriptLoad])
   \<and> init_deps ((web_run (Maps_web fresh_page no_props) [ScriptLoad])\<lparr>cur_props := hidden_props\<rparr>)
       = init_deps (web_run (Maps_web fresh_page no_props) [ScriptLoad])
   \<and> gmaps (web_step (SetProps hidden_props) (web_run (Maps_web fresh_page no_props) [ScriptLoad]))
       = gmaps (web_run (Maps_web fresh_page no_props) [ScriptLoad])"
proof -
  let ?s = "web_run (Maps_web fresh_page no_props) [ScriptLoad]"
  have h: "mounted ?s" "0 < geo_pending ?s \<and> mapLoaded ?s \<and> errorMsg ?s = None
      \<and> init_deps (?s\<lparr>position := Some reading_a\<rparr>) \<noteq> init_deps ?s"
    "0 < geo_pending ?s \<and> init_deps (?s\<lparr>position := Some reading_home\<rparr>) = init_deps ?s"
    "init_deps (?s\<lparr>cur_props := hidden_props\<rparr>) = init_deps ?s"
    unfolding after_load
    by (simp_all add: init_deps_def mapRegion_def defaultRegion_def reading_a_def
        reading_home_def hidden_props_def no_props_def)
  note t = map_constructed_per_tracked_change [OF refl h(1)]
  have a: "gmaps (web_step (GeoSuccess reading_a) ?s) = gmaps ?s @
      [\<lparr>map_center = (coords_latitude reading_a, coords_longitude reading_a),
        map_zoom = zoom 0.0922\<rparr>]"
    using t [where pos = reading_a] h(2) by blast
  have b: "gmaps (web_step (GeoSuccess reading_home) ?s) = gmaps ?s"
    using t [where pos = reading_home] h(3) by blast
  have c: "gmaps (web_step (SetProps hidden_props) ?s) = gmaps ?s"
    using t [where q = hidden_props] h(4) by blast
  have a': "gmaps (web_step (GeoSuccess reading_a) ?s) = gmaps ?s @
      [\<lparr>map_center = (10, 20), map_zoom = zoom 0.0922\<rparr>]"
    using a by (simp add: reading_a_def)
  from h a' b c show ?thesis by blast
qed

subsection \<open>The provider script\<close>

lemma commit_pass_script_done:
  assumes "deps_script s"
  shows "scripts_injected (commit_pass s) = scripts_injected s"
    "script (commit_pass s) = script s" "head (pg (commit_pass s)) = head (pg s)"
    "nodes_created (pg (commit_pass s)) = nodes_created (pg s)"
  using assms by (simp_all add: commit_pass_def frames script_effect_skip)

lemma commit_pass_script_first:
  assumes "\<not> deps_script s"
  shows "google_maps (pg s) \<Longrightarrow> scripts_injected (commit_pass s) = scripts_injected s"
    "google_maps (pg s) \<Longrightarrow> script (commit_pass s) = script s"
    "google_maps (pg s) \<Longrightarrow> head (pg (commit_pass s)) = head (pg s)"
    "\<not> google_maps (pg s) \<Longrightarrow> scripts_injected (commit_pass s) = scripts_injected s + 1"
    "\<not> google_maps (pg s) \<Longrightarrow> script (commit_pass s) = Some (nodes_created (pg s))"
    "\<not> google_maps (pg s) \<Longrightarrow> head (pg (commit_pass s)) = head (pg s) @ [nodes_created (pg s)]"
  using assms by (simp_all add: commit_pass_def frames script_effect_def Let_def)

lemma commit_pass_injected_inv: "injected_inv s \<Longrightarrow> injected_inv (commit_pass s)"
  by (cases "deps_script s"; cases "google_maps (pg s)")
     (simp_all add: injected_inv_def commit_pass_facts commit_pass_script_done
        commit_pass_script_first)

lemma injected_inv_step: "injected_inv s \<Longrightarrow> injected_inv (web_step e s)"
proof (cases e)
  case Unmount
  assume "injected_inv s"
  then show ?thesis unfolding Unmount
    by (auto simp: injected_inv_def Let_def split: option.splits)
qed (auto simp: Let_def intro!: rerender_preserves [where P = injected_inv]
      commit_pass_injected_inv, auto simp: injected_inv_def)

lemma injected_inv_run: "injected_inv (web_run (Maps_web g p) evs)"
proof (rule web_run_preserves [where P = injected_inv])
  show "injected_inv (Maps_web g p)"
    unfolding Maps_web_def
    by (rule rerender_preserves [where P = injected_inv])
       (simp_all add: injected_inv_def init_state_def commit_pass_injected_inv [unfolded injected_inv_def])
qed (rule injected_inv_step)

lemma commit_pass_skipped_inv: "skipped_inv H s \<Longrightarrow> skipped_inv H (commit_pass s)"
  by (cases "deps_script s")
     (auto simp: skipped_inv_def commit_pass_facts commit_pass_script_done
        commit_pass_script_first)

lemma skipped_inv_step: "skipped_inv H s \<Longrightarrow> skipped_inv H (web_step e s)"
proof (cases e)
  case Unmount
  assume "skipped_inv H s"
  then show ?thesis unfolding Unmount
    by (auto simp: skipped_inv_def Let_def split: option.splits)
qed (auto simp: Let_def intro!: rerender_preserves [where P = "skipped_inv H"]
      commit_pass_skipped_inv, auto simp: skipped_inv_def)

lemma skipped_inv_run:
  assumes "google_maps g"
  shows "skipped_inv (head g) (web_run (Maps_web g p) evs)"
proof (rule web_run_preserves [where P = "skipped_inv (head g)"])
  show "skipped_inv (head g) (Maps_web g p)"
    unfolding Maps_web_def
    by (rule rerender_preserves [where P = "skipped_inv (head g)"])
       (simp_all add: assms skipped_inv_def init_state_def
          commit_pass_skipped_inv [unfolded skipped_inv_def])
qed (rule skipped_inv_step)

lemma commit_pass_script_inv: "script_inv n s \<Longrightarrow> script_inv n (commit_pass s)"
  by (simp add: script_inv_def commit_pass_facts commit_pass_script_done)

lemma script_inv_step: "script_inv n s \<Longrightarrow> script_inv n (web_step e s)"
proof (cases e)
  case Unmount
  assume "script_inv n s"
  then show ?thesis unfolding Unmount
    by (auto simp: script_inv_def Let_def split: option.splits)
qed (auto simp: Let_def intro!: rerender_preserves [where P = "script_inv n"]
      commit_pass_script_inv, auto simp: script_inv_def)

lemma mount_injects:
  assumes "\<not> google_maps g"
  shows "scripts_injected (Maps_web g p) = 1" "script (Maps_web g p) = Some (nodes_created g)"
    "head (pg (Maps_web g p)) = head g @ [nodes_created g]" "deps_script (Maps_web g p)"
    "mounted (Maps_web g p)"
proof -
  let ?i = "init_state g p"
  have 1: "scripts_injected (commit_pass ?i) = 1 \<and> script (commit_pass ?i) = Some (nodes_created g)
    \<and> head (pg (commit_pass ?i)) = head g @ [nodes_created g] \<and> deps_script (commit_pass ?i)
    \<and> mounted (commit_pass ?i)"
    using assms by (simp add: commit_pass_script_first commit_pass_facts init_state_def)
  then have 2: "scripts_injected (commit_pass (commit_pass ?i)) = 1
    \<and> script (commit_pass (commit_pass ?i)) = Some (nodes_created g)
    \<and> head (pg (commit_pass (commit_pass ?i))) = head g @ [nodes_created g]
    \<and> deps_script (commit_pass (commit_pass ?i)) \<and> mounted (commit_pass (commit_pass ?i))"
    by (simp add: commit_pass_script_done commit_pass_facts)
  from 1 2 rerender_cases [of ?i]
  show "scripts_injected (Maps_web g p) = 1" "script (Maps_web g p) = Some (nodes_created g)"
    "head (pg (Maps_web g p)) = head g @ [nodes_created g]" "deps_script (Maps_web g p)"
    "mounted (Maps_web g p)"
    unfolding Maps_web_def by auto
qed

lemma script_inv_run:
  assumes "\<not> google_maps g"
  shows "script_inv (nodes_created g) (web_run (Maps_web g p) evs)"
proof (rule web_run_preserves [where P = "script_inv (nodes_created g)"])
  show "script_inv (nodes_created g) (Maps_web g p)"
    using mount_injects [OF assms, of p] by (simp add: script_inv_def)
qed (rule script_inv_step)

lemma unmount_unmounted: "\<not> mounted (web_step Unmount s)"
  by (simp add: Let_def split: option.splits)

text \<open>
  Claim C7 as the code has it: over any events a mount appends at most one script element
  to the head. The append is skipped exactly when \<^verbatim>\<open>window.google.maps\<close> is defined at
  mount (then the head is never touched); otherwise the mount appends a new element
  whatever the head holds already, the element stays in the head while the component is
  mounted, and the unmount removes it.
\<close>

theorem script_injected_once:
  "scripts_injected (web_run (Maps_web g p) evs) \<le> 1
   \<and> (google_maps g \<longrightarrow>
        scripts_injected (web_run (Maps_web g p) evs) = 0
        \<and> head (pg (web_run (Maps_web g p) evs)) = head g)
   \<and> (\<not> google_maps g \<longrightarrow>
        scripts_injected (Maps_web g p) = 1
        \<and> script (Maps_web g p) = Some (nodes_created g)
        \<and> head (pg (Maps_web g p)) = head g @ [nodes_created g])
   \<and> (\<not> google_maps g \<and> mounted (web_run (Maps_web g p) evs) \<longrightarrow>
        nodes_created g \<in> set (head (pg (web_run (Maps_web g p) evs))))
   \<and> (\<not> google_maps g \<longrightarrow>
        nodes_created g \<notin> set (head (pg (web_run (Maps_web g p) (evs @ [Unmount])))))"
proof -
  have 1: "scripts_injected (web_run (Maps_web g p) evs) \<le> 1"
    using injected_inv_run [of g p evs] by (simp add: injected_inv_def split: if_splits)
  have 2: "scripts_injected (web_run (Maps_web g p) evs) = 0
        \<and> head (pg (web_run (Maps_web g p) evs)) = head g" if "google_maps g"
    using skipped_inv_run [OF that, of p evs] by (simp add: skipped_inv_def)
  have 4: "nodes_created g \<in> set (head (pg (web_run (Maps_web g p) evs)))"
    if "\<not> google_maps g" "mounted (web_run (Maps_web g p) evs)"
    using script_inv_run [OF that(1), of p evs] that(2) by (simp add: script_inv_def)
  have 5: "nodes_created g \<notin> set (head (pg (web_run (Maps_web g p) (evs @ [Unmount]))))"
    if "\<not> google_maps g"
    using script_inv_run [OF that, of p "evs @ [Unmount]"]
      unmount_unmounted [of "web_run (Maps_web g p) evs"]
    by (simp add: script_inv_def web_run_append)
  from 1 2 4 5 mount_injects(1-3) [of g p] show ?thesis by blast
qed

theorem script_injected_once_witness:
  "\<not> google_maps fresh_page
   \<and> mounted (web_run (Maps_web fresh_page no_props) [GeoSuccess reading_a])
   \<and> head (pg (web_run (Maps_web fresh_page no_props) [GeoSuccess reading_a])) = [0]
   \<and> 0 \<notin> set (head (pg (web_run (Maps_web fresh_page no_props) ([GeoSuccess reading_a] @ [Unmount]))))
   \<and> google_maps loaded_page
   \<and> scripts_injected (web_run (Maps_web loaded_page no_props) [GeoSuccess reading_a]) = 0"
proof -
  have h: "\<not> google_maps fresh_page" "google_maps loaded_page"
    "mounted (web_run (Maps_web fresh_page no_props) [GeoSuccess reading_a])"
    "head (pg (web_run (Maps_web fresh_page no_props) [GeoSuccess reading_a])) = [0]"
    "nodes_created fresh_page = 0"
    by (simp_all add: web_defs loaded_page_def)
  from h script_injected_once [of fresh_page no_props "[GeoSuccess reading_a]"]
    script_injected_once [of loaded_page no_props "[GeoSuccess reading_a]"]
  show ?thesis by simp
qed

text \<open>Claim C7 as stated (no injection when the provider's script is already in the page):
  a second component mounted on the page of the first, before the first script has loaded,
  appends a second script element.\<close>

theorem second_mount_injects_again:
  "head (pg (Maps_web fresh_page no_props)) = [0]
   \<and> \<not> google_maps (pg (Maps_web fresh_page no_props))
   \<and> scripts_injected (Maps_web (pg (Maps_web fresh_page no_props)) no_props) = 1
   \<and> head (pg (Maps_web (pg (Maps_web fresh_page no_props)) no_props)) = [0, 1]"
  by (simp add: web_defs)


subsection \<open>A component that does not show the location\<close>

lemma commit_pass_hidden:
  assumes "\<not> show_location (cur_props s)"
  shows "geo_requests (commit_pass s) = geo_requests s"
    "geo_pending (commit_pass s) = geo_pending s"
    "errorMsg (commit_pass s) = errorMsg s"
    "length (markers (commit_pass s)) = length (markers s)"
    "userMarkerRef s = None \<Longrightarrow> markers (commit_pass s) = markers s"
    "userMarkerRef s = None \<Longrightarrow> userMarkerRef (commit_pass s) = None"
  using assms
  by (simp_all add: commit_pass_def frames location_effect_def marker_effect_def Let_def
      split: option.splits)

lemma commit_pass_hidden_inv: "hidden_inv s \<Longrightarrow> hidden_inv (commit_pass s)"
  by (simp add: hidden_inv_def commit_pass_hidden commit_pass_facts)

lemma rerender_hidden:
  assumes "\<not> show_location (cur_props s)"
  shows "geo_requests (rerender s) = geo_requests s"
    "length (markers (rerender s)) = length (markers s)"
  using rerender_cases [of s] assms
  by (auto simp: commit_pass_hidden commit_pass_facts)

lemma hidden_inv_step: "hidden_inv s \<Longrightarrow> props_hidden e \<Longrightarrow> hidden_inv (web_step e s)"
proof (cases e)
  case Unmount
  assume "hidden_inv s"
  then show ?thesis unfolding Unmount
    by (auto simp: hidden_inv_def Let_def split: option.splits)
qed (auto simp: Let_def intro!: rerender_preserves [where P = hidden_inv]
      commit_pass_hidden_inv, auto simp: hidden_inv_def)

lemma hidden_inv_run:
  "hidden_inv s \<Longrightarrow> list_all props_hidden evs \<Longrightarrow> hidden_inv (web_run s evs)"
  by (induction evs arbitrary: s) (simp_all add: hidden_inv_step)

lemma hidden_inv_mount: "\<not> show_location p \<Longrightarrow> hidden_inv (Maps_web g p)"
  unfolding Maps_web_def
  by (rule rerender_preserves [where P = hidden_inv])
     (simp_all add: hidden_inv_def init_state_def commit_pass_hidden_inv [unfolded hidden_inv_def])

lemma native_pass_hidden:
  assumes "\<not> show_location (n_props s)"
  shows "perm_requests (native_pass s) = perm_requests s"
    "perm_pending (native_pass s) = perm_pending s"
  using assms by (simp_all add: native_pass_def native_location_effect_def Let_def)

lemma native_pass_hidden_inv: "native_hidden_inv s \<Longrightarrow> native_hidden_inv (native_pass s)"
  by (simp add: native_hidden_inv_def native_pass_hidden native_pass_frame)

lemma native_hidden_inv_step:
  "native_hidden_inv s \<Longrightarrow> native_props_hidden e \<Longrightarrow> native_hidden_inv (native_step e s)"
proof (cases e)
  case NativeUnmount
  assume "native_hidden_inv s"
  then show ?thesis unfolding NativeUnmount by (simp add: native_hidden_inv_def)
qed (auto simp: Let_def intro!: native_pass_hidden_inv, auto simp: native_hidden_inv_def)

lemma native_hidden_inv_run:
  "native_hidden_inv s \<Longrightarrow> list_all native_props_hidden evs
   \<Longrightarrow> native_hidden_inv (native_run s evs)"
  by (induction evs arbitrary: s) (simp_all add: native_hidden_inv_step)

lemma native_hidden_inv_mount: "\<not> show_location p \<Longrightarrow> native_hidden_inv (Maps_native p)"
  unfolding Maps_native_def
  by (rule native_pass_hidden_inv) (simp add: native_hidden_inv_def native_init_def)

lemma step_hidden:
  assumes "\<not> show_location (cur_props s)" "props_hidden e"
  shows "geo_requests (web_step e s) = geo_requests s"
    "length (markers (web_step e s)) = length (markers s)"
  using assms
  by (cases e; simp add: Let_def rerender_hidden split: option.splits)+

lemma native_step_hidden:
  assumes "\<not> show_location (n_props n)" "native_props_hidden e"
  shows "perm_requests (native_step e n) = perm_requests n"
  using assms by (cases e) (simp_all add: Let_def native_pass_hidden)

text \<open>
  Claim C10 as the code has it: an omitted \<^verbatim>\<open>showUserLocation\<close> counts as true in both
  components. In any state with \<^verbatim>\<open>showUserLocation\<close> false, no event other than props that
  turn it on makes the web component call \<^verbatim>\<open>getCurrentPosition\<close> or create a marker, or
  the native component ask for the permission. A component mounted with the flag false
  and never given props that turn it on makes no request at all, holds no reading and no
  marker, and records no location error (on the web the only error left is the failed
  script load).
\<close>

theorem no_request_while_hidden:
  "show_location \<lparr>initialRegion = r, showUserLocation = None\<rparr>
   \<and> (\<not> show_location (cur_props s) \<and> props_hidden e \<longrightarrow>
        geo_requests (web_step e s) = geo_requests s
        \<and> length (markers (web_step e s)) = length (markers s))
   \<and> (\<not> show_location (n_props n) \<and> native_props_hidden e' \<longrightarrow>
        perm_requests (native_step e' n) = perm_requests n)
   \<and> (\<not> show_location p \<and> list_all props_hidden evs \<longrightarrow>
        geo_requests (web_run (Maps_web g p) evs) = 0
        \<and> position (web_run (Maps_web g p) evs) = None
        \<and> markers (web_run (Maps_web g p) evs) = []
        \<and> (errorMsg (web_run (Maps_web g p) evs) = None
            \<or> errorMsg (web_run (Maps_web g p) evs) = Some ''Failed to load Google Maps''))
   \<and> (\<not> show_location p \<and> list_all native_props_hidden nevs \<longrightarrow>
        perm_requests (native_run (Maps_native p) nevs) = 0
        \<and> loc_requests (native_run (Maps_native p) nevs) = 0
        \<and> n_errorMsg (native_run (Maps_native p) nevs) = None
        \<and> n_location (native_run (Maps_native p) nevs) = None
        \<and> (n_mounted (native_run (Maps_native p) nevs) \<longrightarrow>
             n_rendered (native_run (Maps_native p) nevs)
               = [MapView (n_region (native_run (Maps_native p) nevs)) False []]))"
proof -
  have w: "geo_requests (web_run (Maps_web g p) evs) = 0
        \<and> position (web_run (Maps_web g p) evs) = None
        \<and> markers (web_run (Maps_web g p) evs) = []
        \<and> (errorMsg (web_run (Maps_web g p) evs) = None
            \<or> errorMsg (web_run (Maps_web g p) evs) = Some ''Failed to load Google Maps'')"
    if "\<not> show_location p" "list_all props_hidden evs"
    using hidden_inv_run [OF hidden_inv_mount [OF that(1)] that(2), of g]
    by (simp add: hidden_inv_def)
  have n: "perm_requests (native_run (Maps_native p) nevs) = 0
        \<and> loc_requests (native_run (Maps_native p) nevs) = 0
        \<and> n_errorMsg (native_run (Maps_native p) nevs) = None
        \<and> n_location (native_run (Maps_native p) nevs) = None
        \<and> (n_mounted (native_run (Maps_native p) nevs) \<longrightarrow>
             n_rendered (native_run (Maps_native p) nevs)
               = [MapView (n_region (native_run (Maps_native p) nevs)) False []])"
    if "\<not> show_location p" "list_all native_props_hidden nevs"
    using native_hidden_inv_run [OF native_hidden_inv_mount [OF that(1)] that(2)]
      native_synced_run [of p nevs]
    by (simp add: native_hidden_inv_def native_synced_def native_view_def truthy_def)
  have d: "show_location \<lparr>initialRegion = r, showUserLocation = None\<rparr>"
    by (simp add: show_location_def)
  from d w n step_hidden [of s e] native_step_hidden [of n e']
  show ?thesis by blast
qed

theorem no_request_while_hidden_witness:
  "\<not> show_location (cur_props (web_run (Maps_web fresh_page no_props)
        [ScriptLoad, SetProps hidden_props]))
   \<and> props_hidden (GeoSuccess reading_a)
   \<and> geo_requests (web_step (GeoSuccess reading_a)
        (web_run (Maps_web fresh_page no_props) [ScriptLoad, SetProps hidden_props])) = 1
   \<and> length (markers (web_step (GeoSuccess reading_a)
        (web_run (Maps_web fresh_page no_props) [ScriptLoad, SetProps hidden_props]))) = 0
   \<and> \<not> show_location (n_props (native_run (Maps_native no_props)
        [NativeSetProps hidden_props]))
   \<and> native_props_hidden (PermissionResult True)
   \<and> perm_requests (native_step (PermissionResult True)
        (native_run (Maps_native no_props) [NativeSetProps hidden_props])) = 1
   \<and> \<not> show_location hidden_props
   \<and> list_all props_hidden [ScriptLoad, SetProps hidden_props, GeoSuccess reading_a]
   \<and> list_all native_props_hidden [PermissionResult True, NativeSetProps hidden_props]
   \<and> geo_requests (web_run (Maps_web fresh_page hidden_props)
        [ScriptLoad, SetProps hidden_props, GeoSuccess reading_a]) = 0
   \<and> markers (web_run (Maps_web fresh_page hidden_props)
        [ScriptLoad, SetProps hidden_props, GeoSuccess reading_a]) = []
   \<and> perm_requests (native_run (Maps_native hidden_props)
        [PermissionResult True, NativeSetProps hidden_props]) = 0
   \<and> n_mounted (native_run (Maps_native hidden_props)
        [PermissionResult True, NativeSetProps hidden_props])
   \<and> n_rendered (native_run (Maps_native hidden_props)
        [PermissionResult True, NativeSetProps hidden_props]) = [MapView defaultRegion False []]"
proof -
  let ?s = "web_run (Maps_web fresh_page no_props) [ScriptLoad, SetProps hidden_props]"
  let ?n = "native_run (Maps_native no_props) [NativeSetProps hidden_props]"
  have h: "\<not> show_location hidden_props"
    "list_all props_hidden [ScriptLoad, SetProps hidden_props, GeoSuccess reading_a]"
    "list_all native_props_hidden [PermissionResult True, NativeSetProps hidden_props]"
    "props_hidden (GeoSuccess reading_a)" "native_props_hidden (PermissionResult True)"
    by (simp_all add: show_location_def hidden_props_def)
  have m: "n_mounted (native_run (Maps_native hidden_props)
        [PermissionResult True, NativeSetProps hidden_props])
      \<and> n_region (native_run (Maps_native hidden_props)
        [PermissionResult True, NativeSetProps hidden_props]) = defaultRegion"
    by (simp add: native_defs)
  have c: "\<not> show_location (cur_props ?s) \<and> geo_requests ?s = 1 \<and> markers ?s = []"
    by (simp add: web_defs)
  have c': "\<not> show_location (n_props ?n) \<and> perm_requests ?n = 1"
    by (simp add: native_defs)
  from h m c c'
    no_request_while_hidden [where p = hidden_props and g = fresh_page
      and evs = "[ScriptLoad, SetProps hidden_props, GeoSuccess reading_a]"
      and nevs = "[PermissionResult True, NativeSetProps hidden_props]"
      and s = ?s and e = "GeoSuccess reading_a" and n = ?n and e' = "PermissionResult True"]
  show ?thesis by simp
qed

text \<open>
  Claim C10 as stated (nothing of the location path happens whenever the flag is false):
  a request made while the flag was true is not cancelled when the flag is turned off. On
  the web its error callback then records the location error; on native the granted
  permission then issues the position query, and its result renders the \<^verbatim>\<open>Marker\<close>.
\<close>

theorem request_completes_after_flag_off:
  "\<not> show_location (cur_props
        (web_run (Maps_web fresh_page no_props) [SetProps hidden_props]))
   \<and> errorMsg (web_run (Maps_web fresh_page no_props) [SetProps hidden_props]) = None
   \<and> errorMsg (web_run (Maps_web fresh_page no_props)
        [SetProps hidden_props, GeoError ''denied''])
       = Some ''Error getting location: denied''
   \<and> \<not> show_location (n_props
        (native_run (Maps_native no_props) [NativeSetProps hidden_props]))
   \<and> loc_requests (native_run (Maps_native no_props) [NativeSetProps hidden_props]) = 0
   \<and> loc_requests (native_run (Maps_native no_props)
        [NativeSetProps hidden_props, PermissionResult True]) = 1
   \<and> n_rendered (native_run (Maps_native no_props)
        [NativeSetProps hidden_props, PermissionResult True, LocationResult reading_a])
       = [MapView \<lparr>latitude = 10, longitude = 20, latitudeDelta = 0.0922,
                   longitudeDelta = 0.0421\<rparr> False [(10, 20)]]
   \<and> n_errorMsg (native_run (Maps_native no_props)
        [NativeSetProps hidden_props, PermissionResult False])
       = Some ''Permission to access location was denied''"
  by (simp add: web_defs native_defs)

subsection \<open>The screen never changes the props of the map\<close>

lemma same_props_step:
  assumes "synced s"
  shows "web_step (SetProps (cur_props s)) s = s"
proof (cases "mounted s")
  case True
  with assms have "settled s" by (simp add: synced_def)
  then have "rerender s = s" by (rule rerender_idem)
  then show ?thesis using True by simp
next
  case False
  then show ?thesis by simp
qed

lemma step_cur_props: "\<not> is_props_event e \<Longrightarrow> cur_props (web_step e s) = cur_props s"
  by (cases e) (simp_all add: Let_def rerender_frame split: option.splits)

lemma PlatformMap_web_run_eq:
  assumes "synced s" "cur_props s = PlatformMap_child_props pp"
  shows "PlatformMap_web_run s evs = web_run s (filter (\<lambda>e. \<not> is_props_event e) evs)"
  using assms
proof (induction evs arbitrary: s)
  case Nil
  then show ?case by simp
next
  case (Cons e evs)
  show ?case
  proof (cases "is_props_event e")
    case True
    then obtain q where e: "e = SetProps q" by (cases e) simp_all
    have "PlatformMap_child_props q = cur_props s"
      using Cons.prems(2) by (simp add: PlatformMap_child_props_def)
    then have "PlatformMap_web_step e s = s"
      unfolding e using same_props_step [OF Cons.prems(1)] by simp
    then show ?thesis using Cons True by simp
  next
    case False
    then have st: "PlatformMap_web_step e s = web_step e s" by (cases e) simp_all
    have "PlatformMap_web_run (web_step e s) evs
        = web_run (web_step e s) (filter (\<lambda>e. \<not> is_props_event e) evs)"
      by (rule Cons.IH) (simp_all add: synced_step Cons.prems step_cur_props False)
    then show ?thesis using False st by simp
  qed
qed

lemma native_same_props_step:
  assumes "native_synced s"
  shows "native_step (NativeSetProps (n_props s)) s = s"
proof (cases "n_mounted s")
  case True
  with assms have "n_rendered s = native_view s"
    "n_deps_location s = Some (show_location (n_props s))"
    by (simp_all add: native_synced_def)
  then have "native_pass s = s"
    by (simp add: native_pass_def native_location_effect_def)
  then show ?thesis using True by simp
next
  case False
  then show ?thesis by simp
qed

lemma native_step_props:
  "\<not> is_native_props_event e \<Longrightarrow> n_props (native_step e s) = n_props s"
  by (cases e) (simp_all add: Let_def native_pass_frame)

lemma PlatformMap_native_run_eq:
  assumes "native_synced s" "n_props s = PlatformMap_child_props pp"
  shows "PlatformMap_native_run s evs
     = native_run s (filter (\<lambda>e. \<not> is_native_props_event e) evs)"
  using assms
proof (induction evs arbitrary: s)
  case Nil
  then show ?case by simp
next
  case (Cons e evs)
  show ?case
  proof (cases "is_native_props_event e")
    case True
    then obtain q where e: "e = NativeSetProps q" by (cases e) simp_all
    have "PlatformMap_child_props q = n_props s"
      using Cons.prems(2) by (simp add: PlatformMap_child_props_def)
    then have "PlatformMap_native_step e s = s"
      unfolding e using native_same_props_step [OF Cons.prems(1)] by simp
    then show ?thesis using Cons True by simp
  next
    case False
    then have st: "PlatformMap_native_step e s = native_step e s" by (cases e) simp_all
    have "PlatformMap_native_run (native_step e s) evs
        = native_run (native_step e s) (filter (\<lambda>e. \<not> is_native_props_event e) evs)"
      by (rule Cons.IH) (simp_all add: native_synced_step Cons.prems native_step_props False)
    then show ?thesis using False st by simp
  qed
qed

lemma mount_props: "cur_props (Maps_web g p) = p" "n_props (Maps_native p) = p"
  by (simp_all add: Maps_web_def rerender_frame init_state_def Maps_native_def
      native_pass_frame native_init_def)

text \<open>
  Claim C9: whatever props \<^verbatim>\<open>PlatformMap\<close> is given, at mount or later, the map it mounts
  is \<^verbatim>\<open>Maps\<close> without props, and stays in the state that \<^verbatim>\<open>Maps\<close> without props reaches
  under the same events with the props events left out: the props of the screen have no
  effect on either implementation.
\<close>

theorem screen_props_not_forwarded:
  "HomeScreen_web g = Maps_web g \<lparr>initialRegion = None, showUserLocation = None\<rparr>
   \<and> HomeScreen_native = Maps_native \<lparr>initialRegion = None, showUserLocation = None\<rparr>
   \<and> PlatformMap_web g pp = Maps_web g \<lparr>initialRegion = None, showUserLocation = None\<rparr>
   \<and> PlatformMap_web_run (PlatformMap_web g pp) evs
       = web_run (Maps_web g \<lparr>initialRegion = None, showUserLocation = None\<rparr>)
           (filter (\<lambda>e. \<not> is_props_event e) evs)
   \<and> PlatformMap_native pp = Maps_native \<lparr>initialRegion = None, showUserLocation = None\<rparr>
   \<and> PlatformMap_native_run (PlatformMap_native pp) nevs
       = native_run (Maps_native \<lparr>initialRegion = None, showUserLocation = None\<rparr>)
           (filter (\<lambda>e. \<not> is_native_props_event e) nevs)"
proof -
  have 1: "PlatformMap_web g pp = Maps_web g \<lparr>initialRegion = None, showUserLocation = None\<rparr>"
    by (simp add: PlatformMap_web_def PlatformMap_child_props_def)
  have 2: "PlatformMap_native pp = Maps_native \<lparr>initialRegion = None, showUserLocation = None\<rparr>"
    by (simp add: PlatformMap_native_def PlatformMap_child_props_def)
  have 3: "PlatformMap_web_run (PlatformMap_web g pp) evs
       = web_run (PlatformMap_web g pp) (filter (\<lambda>e. \<not> is_props_event e) evs)"
    by (rule PlatformMap_web_run_eq [where pp = pp])
       (simp_all add: PlatformMap_web_def synced_mount mount_props)
  have 4: "PlatformMap_native_run (PlatformMap_native pp) nevs
       = native_run (PlatformMap_native pp) (filter (\<lambda>e. \<not> is_native_props_event e) nevs)"
    by (rule PlatformMap_native_run_eq [where pp = pp])
       (simp_all add: PlatformMap_native_def native_synced_mount mount_props)
  have 5: "HomeScreen_web g = Maps_web g \<lparr>initialRegion = None, showUserLocation = None\<rparr>"
    "HomeScreen_native = Maps_native \<lparr>initialRegion = None, showUserLocation = None\<rparr>"
    by (simp_all add: HomeScreen_web_def HomeScreen_native_def PlatformMap_web_def
        PlatformMap_native_def PlatformMap_child_props_def)
  from 1 2 3 4 5 show ?thesis by simp
qed


subsection \<open>The marker\<close>

lemma marker_inv_cong:
  "markers s = markers t \<Longrightarrow> userMarkerRef s = userMarkerRef t \<Longrightarrow> marker_inv s = marker_inv t"
  by (simp add: marker_inv_def)

lemma marker_invD1:
  "marker_inv s \<Longrightarrow> i < length (markers s) \<Longrightarrow> marker_map (markers s ! i) \<noteq> None
   \<Longrightarrow> userMarkerRef s = Some i"
  unfolding marker_inv_def by blast

lemma marker_invD2:
  "marker_inv s \<Longrightarrow> userMarkerRef s = Some h
   \<Longrightarrow> h < length (markers s) \<and> marker_map (markers s ! h) \<noteq> None"
  unfolding marker_inv_def by blast

lemma marker_inv_update [simp]:
  "marker_inv (s\<lparr>cur_props := a1\<rparr>) = marker_inv s"
  "marker_inv (s\<lparr>position := a2\<rparr>) = marker_inv s"
  "marker_inv (s\<lparr>errorMsg := a3\<rparr>) = marker_inv s"
  "marker_inv (s\<lparr>mapLoaded := a4\<rparr>) = marker_inv s"
  "marker_inv (s\<lparr>mapRef := a5\<rparr>) = marker_inv s"
  "marker_inv (s\<lparr>script_pending := a6\<rparr>) = marker_inv s"
  "marker_inv (s\<lparr>geo_pending := a7\<rparr>) = marker_inv s"
  "marker_inv (s\<lparr>rendered := a8\<rparr>) = marker_inv s"
  "marker_inv (s\<lparr>mounted := a9\<rparr>) = marker_inv s"
  "marker_inv (s\<lparr>pg := a10\<rparr>) = marker_inv s"
  "marker_inv (s\<lparr>deps_marker := a11\<rparr>) = marker_inv s"
  by (simp_all add: marker_inv_def)

lemma marker_inv_remove:
  assumes "marker_inv s" "userMarkerRef s = Some h"
  shows "marker_inv (s\<lparr>markers := (markers s)[h := (markers s ! h)\<lparr>marker_map := None\<rparr>],
                      userMarkerRef := None\<rparr>)"
proof -
  have "marker_map ((markers s)[h := (markers s ! h)\<lparr>marker_map := None\<rparr>] ! i) = None"
    if "i < length (markers s)" for i
  proof (cases "i = h")
    case True
    then show ?thesis using that by simp
  next
    case False
    then have "userMarkerRef s \<noteq> Some i" using assms(2) by simp
    then have "marker_map (markers s ! i) = None"
      using assms(1) that unfolding marker_inv_def by blast
    then show ?thesis using False by simp
  qed
  then show ?thesis by (simp add: marker_inv_def)
qed

lemma marker_inv_create:
  assumes "marker_inv s" "userMarkerRef s = None" "k \<noteq> None"
  shows "marker_inv (s\<lparr>markers := markers s @ [\<lparr>marker_position = p, marker_map = k\<rparr>],
                      userMarkerRef := Some (length (markers s))\<rparr>)"
proof -
  have "marker_map (markers s ! i) = None" if "i < length (markers s)" for i
    using assms(1,2) that unfolding marker_inv_def by auto
  then show ?thesis using assms(3)
    by (simp add: marker_inv_def nth_append less_Suc_eq)
qed

lemma marker_inv_move:
  assumes "marker_inv s" "userMarkerRef s = Some h"
  shows "marker_inv (s\<lparr>markers := (markers s)[h := (markers s ! h)\<lparr>marker_position := p\<rparr>]\<rparr>)"
    (is "marker_inv ?t")
proof -
  have a: "userMarkerRef s = Some i"
    if "i < length (markers s)" "marker_map (markers s ! i) \<noteq> None" for i
    using assms(1) that unfolding marker_inv_def by blast
  have b: "k < length (markers s) \<and> marker_map (markers s ! k) \<noteq> None"
    if "userMarkerRef s = Some k" for k
    using assms(1) that unfolding marker_inv_def by blast
  have h: "h < length (markers s)" using b [OF assms(2)] by simp
  have len: "length (markers ?t) = length (markers s)" by simp
  have mm: "marker_map (markers ?t ! i) = marker_map (markers s ! i)" for i
    using h by (cases "i = h") simp_all
  have ref: "userMarkerRef ?t = userMarkerRef s" by simp
  show ?thesis
    unfolding marker_inv_def len mm ref using a b by blast
qed

lemma marker_effect_inv:
  assumes "marker_inv s"
  shows "marker_inv (marker_effect r s)"
proof (cases "userMarkerRef s")
  case None
  then show ?thesis
    using assms marker_inv_create [of "s\<lparr>deps_marker := Some (marker_deps r)\<rparr>"]
    by (simp add: marker_effect_def Let_def)
next
  case (Some h)
  then show ?thesis
    using assms marker_inv_remove [of "s\<lparr>deps_marker := Some (marker_deps r)\<rparr>" h]
      marker_inv_move [of "s\<lparr>deps_marker := Some (marker_deps r)\<rparr>" h]
    by (simp add: marker_effect_def Let_def)
qed

lemma commit_pass_marker_inv: "marker_inv s \<Longrightarrow> marker_inv (commit_pass s)"
proof -
  assume a: "marker_inv s"
  let ?u = "init_effect s (script_effect s (location_effect s (render s)))"
  have "marker_inv ?u = marker_inv s" by (rule marker_inv_cong) (simp_all add: frames)
  with a have "marker_inv ?u" by simp
  then show ?thesis unfolding commit_pass_def by (rule marker_effect_inv)
qed

lemma rerender_marker_inv: "marker_inv s \<Longrightarrow> marker_inv (rerender s)"
  by (rule rerender_preserves [where P = marker_inv]) (simp_all add: commit_pass_marker_inv)

lemma marker_inv_step: "marker_inv s \<Longrightarrow> marker_inv (web_step e s)"
  by (cases e) (auto simp: Let_def split: option.splits intro!: rerender_marker_inv)

lemma marker_inv_mount: "marker_inv (Maps_web g p)"
  unfolding Maps_web_def by (rule rerender_marker_inv) (simp add: marker_inv_def init_state_def)

lemma marker_inv_run: "marker_inv (web_run (Maps_web g p) evs)"
  by (rule web_run_preserves [where P = marker_inv]) (simp_all add: marker_inv_mount marker_inv_step)

lemma live_indices:
  assumes "marker_inv s"
  shows "{i. i < length (markers s) \<and> marker_map (markers s ! i) \<noteq> None}
      \<subseteq> (case userMarkerRef s of None \<Rightarrow> {} | Some h \<Rightarrow> {h})"
proof
  fix i assume "i \<in> {i. i < length (markers s) \<and> marker_map (markers s ! i) \<noteq> None}"
  then have "userMarkerRef s = Some i" using marker_invD1 [OF assms] by blast
  then show "i \<in> (case userMarkerRef s of None \<Rightarrow> {} | Some h \<Rightarrow> {h})" by simp
qed

lemma live_markers_le_1:
  assumes "marker_inv s"
  shows "length (live_markers s) \<le> 1"
proof -
  have "card {i. i < length (markers s) \<and> marker_map (markers s ! i) \<noteq> None}
      \<le> card (case userMarkerRef s of None \<Rightarrow> {} | Some h \<Rightarrow> {h})"
    by (rule card_mono [OF _ live_indices [OF assms]]) (simp split: option.splits)
  also have "\<dots> \<le> 1" by (simp split: option.splits)
  finally show ?thesis by (simp add: live_markers_def length_filter_conv_card)
qed

lemma live_markers_none:
  assumes "marker_inv s" "userMarkerRef s = None"
  shows "live_markers s = []"
proof -
  have "card {i. i < length (markers s) \<and> marker_map (markers s ! i) \<noteq> None} = 0"
    using live_indices [OF assms(1)] assms(2) by simp
  then have "length (live_markers s) = 0"
    by (simp only: live_markers_def length_filter_conv_card)
  then show ?thesis by simp
qed

subsection \<open>Removing the marker\<close>

lemma commit_pass_removes:
  assumes "\<not> show_location (cur_props t)"
    and "deps_marker t \<noteq> Some (marker_deps t) \<or> userMarkerRef t = None"
  shows "userMarkerRef (commit_pass t) = None"
  using assms
  by (auto simp: commit_pass_def frames marker_effect_def Let_def split: option.splits)

lemma rerender_removes:
  assumes "\<not> show_location (cur_props t)" "deps_marker t \<noteq> Some (marker_deps t)"
  shows "userMarkerRef (rerender t) = None"
proof -
  have 1: "userMarkerRef (commit_pass t) = None" using assms by (simp add: commit_pass_removes)
  then have 2: "userMarkerRef (commit_pass (commit_pass t)) = None"
    using assms(1) by (intro commit_pass_removes) (simp_all add: commit_pass_facts)
  from 1 2 rerender_cases [of t] show ?thesis by auto
qed

lemma toggle_off:
  assumes "synced s" "marker_inv s" "mounted s" "show_location (cur_props s)"
    "\<not> show_location q"
  shows "userMarkerRef (web_step (SetProps q) s) = None"
    "live_markers (web_step (SetProps q) s) = []"
    "length (markers (web_step (SetProps q) s)) = length (markers s)"
proof -
  let ?t = "s\<lparr>cur_props := q\<rparr>"
  have st: "settled s" using assms(1,3) by (simp add: synced_def)
  have "deps_marker ?t \<noteq> Some (marker_deps ?t)"
    using st assms(4,5) by (simp add: settled_def marker_deps_def)
  then have r: "userMarkerRef (rerender ?t) = None"
    using assms(5) by (intro rerender_removes) simp_all
  have mi: "marker_inv (rerender ?t)" using assms(2) by (intro rerender_marker_inv) simp
  show "userMarkerRef (web_step (SetProps q) s) = None" using r assms(3) by simp
  show "live_markers (web_step (SetProps q) s) = []"
    using live_markers_none [OF mi r] assms(3) by simp
  show "length (markers (web_step (SetProps q) s)) = length (markers s)"
    using rerender_hidden(2) [of ?t] assms(3,5) by simp
qed

text \<open>What holds of the marker in every state the web component reaches: at most one
  marker is on a map, and turning \<^verbatim>\<open>showUserLocation\<close> off takes the marker off its map and
  clears \<open>userMarkerRef\<close>.\<close>

lemma one_marker_and_toggle_off:
  assumes "s = web_run (Maps_web g p) evs"
  shows "length (live_markers s) \<le> 1"
    and "mounted s \<Longrightarrow> show_location (cur_props s) \<Longrightarrow> \<not> show_location q
      \<Longrightarrow> userMarkerRef (web_step (SetProps q) s) = None
          \<and> live_markers (web_step (SetProps q) s) = []"
proof -
  have syn: "synced s" unfolding assms by (rule synced_run)
  have mi: "marker_inv s" unfolding assms by (rule marker_inv_run)
  show "length (live_markers s) \<le> 1" using mi by (rule live_markers_le_1)
  show "userMarkerRef (web_step (SetProps q) s) = None
          \<and> live_markers (web_step (SetProps q) s) = []"
    if "mounted s" "show_location (cur_props s)" "\<not> show_location q"
    using toggle_off(1,2) [OF syn mi that] by simp
qed

subsection \<open>The marker and the map object it is on\<close>

text \<open>After the first reading the marker is on the map object the component holds.\<close>

lemma marker_on_map_after_first_reading:
  "googleMapRef (web_run (Maps_web fresh_page no_props) [ScriptLoad, GeoSuccess reading_a])
     = Some 1
   \<and> markers_on_current_map
       (web_run (Maps_web fresh_page no_props) [ScriptLoad, GeoSuccess reading_a])
     = [\<lparr>marker_position = (10, 20), marker_map = Some 1\<rparr>]"
  by (simp add: web_defs markers_on_current_map_def)

text \<open>
  Claim C5 on the web, at the events: script loaded, first reading, location display
  turned off and on again (which issues a second request), second reading. The second
  reading makes the initialisation effect construct a third map object, which the
  component holds from then on; the marker effect only moves the existing marker, which
  stays attached to the second map object. No marker is on the map the component holds.
\<close>

theorem marker_left_on_replaced_map:
  "position (web_run (Maps_web fresh_page no_props)
      [ScriptLoad, GeoSuccess reading_a, SetProps hidden_props, SetProps no_props,
       GeoSuccess reading_b]) = Some reading_b
   \<and> errorMsg (web_run (Maps_web fresh_page no_props)
      [ScriptLoad, GeoSuccess reading_a, SetProps hidden_props, SetProps no_props,
       GeoSuccess reading_b]) = None
   \<and> googleMapRef (web_run (Maps_web fresh_page no_props)
      [ScriptLoad, GeoSuccess reading_a, SetProps hidden_props, SetProps no_props,
       GeoSuccess reading_b]) = Some 2
   \<and> markers (web_run (Maps_web fresh_page no_props)
      [ScriptLoad, GeoSuccess reading_a, SetProps hidden_props, SetProps no_props,
       GeoSuccess reading_b])
      = [\<lparr>marker_position = (10, 20), marker_map = None\<rparr>,
         \<lparr>marker_position = (11, 21), marker_map = Some 1\<rparr>]
   \<and> markers_on_current_map (web_run (Maps_web fresh_page no_props)
      [ScriptLoad, GeoSuccess reading_a, SetProps hidden_props, SetProps no_props,
       GeoSuccess reading_b]) = []"
  by (simp add: web_defs markers_on_current_map_def)

text \<open>
  Claim C6 on the same events, stage by stage. Turning the flag off takes the marker off
  its map and clears \<open>userMarkerRef\<close>. Turning it on again creates a new marker on the map
  object the component holds (the second), at the reading it still holds. The fresh reading
  then moves that marker, but the initialisation effect has replaced the map object first:
  the one marker on a map is on the second map object, none is on the third, which the
  component holds.
\<close>

theorem marker_recreated_then_left_behind:
  "userMarkerRef (web_run (Maps_web fresh_page no_props)
      [ScriptLoad, GeoSuccess reading_a, SetProps hidden_props]) = None
   \<and> live_markers (web_run (Maps_web fresh_page no_props)
      [ScriptLoad, GeoSuccess reading_a, SetProps hidden_props]) = []
   \<and> googleMapRef (web_run (Maps_web fresh_page no_props)
      [ScriptLoad, GeoSuccess reading_a, SetProps hidden_props, SetProps no_props]) = Some 1
   \<and> userMarkerRef (web_run (Maps_web fresh_page no_props)
      [ScriptLoad, GeoSuccess reading_a, SetProps hidden_props, SetProps no_props]) = Some 1
   \<and> markers_on_current_map (web_run (Maps_web fresh_page no_props)
      [ScriptLoad, GeoSuccess reading_a, SetProps hidden_props, SetProps no_props])
      = [\<lparr>marker_position = (10, 20), marker_map = Some 1\<rparr>]
   \<and> googleMapRef (web_run (Maps_web fresh_page no_props)
      [ScriptLoad, GeoSuccess reading_a, SetProps hidden_props, SetProps no_props,
       GeoSuccess reading_b]) = Some 2
   \<and> userMarkerRef (web_run (Maps_web fresh_page no_props)
      [ScriptLoad, GeoSuccess reading_a, SetProps hidden_props, SetProps no_props,
       GeoSuccess reading_b]) = Some 1
   \<and> live_markers (web_run (Maps_web fresh_page no_props)
      [ScriptLoad, GeoSuccess reading_a, SetProps hidden_props, SetProps no_props,
       GeoSuccess reading_b])
      = [\<lparr>marker_position = (11, 21), marker_map = Some 1\<rparr>]
   \<and> markers_on_current_map (web_run (Maps_web fresh_page no_props)
      [ScriptLoad, GeoSuccess reading_a, SetProps hidden_props, SetProps no_props,
       GeoSuccess reading_b]) = []"
  by (simp add: web_defs markers_on_current_map_def live_markers_def)


end
